theory Spec2Isabelle
  imports Complex_Main "HOL-Library.Sublist" "HOL-Library.AList"
begin

chapter \<open>The x402 agent wallet\<close>

text \<open>
  A shallow embedding of \<^verbatim>\<open>index.cjs\<close>: wallet creation with its key normalisation and
  budget policy, the convenience requests \<^verbatim>\<open>get\<close> and \<^verbatim>\<open>post\<close>, and the balance query.
  The packages the wallet delegates to (account derivation, the protocol client and its
  fetch wrapper, the chain client, \<^verbatim>\<open>formatUnits\<close>) are not part of the repository; they
  appear as parameters, or as models that say so. The definitions come first, the
  properties after them.
\<close>

section \<open>JavaScript values the wallet computes with\<close>

text \<open>
  The wallet (\<^verbatim>\<open>index.cjs\<close>) is JavaScript, and its numbers are IEEE 754 doubles. A
  finite double is modelled by the rational number it denotes; beside the finite ones
  there are \<open>NaN\<close>, which \<^verbatim>\<open>parseInt\<close> yields on text without digits, and the two
  infinities, which it yields on digit strings beyond the largest double. The two zeros
  of the format are one value here: the program only divides a zero by \<open>10000\<close>,
  compares it with \<^verbatim>\<open><=\<close> and tests it for truth, none of which tells them apart.
\<close>

datatype jsnum = NaN | NegInf | Num rat | PosInf

text \<open>
  \<^verbatim>\<open>maxPayment ? ... : ...\<close>: the number is falsy when it is \<open>0\<close> or \<open>NaN\<close>.
\<close>

fun truthy :: "jsnum \<Rightarrow> bool" where
  "truthy NaN = False"
| "truthy (Num r) = (r \<noteq> 0)"
| "truthy NegInf = True"
| "truthy PosInf = True"

text \<open>
  \<^verbatim>\<open>x <= y\<close> on numbers: false as soon as one side is \<open>NaN\<close>; between doubles it is
  the order of the numbers they denote.
\<close>

fun js_le :: "jsnum \<Rightarrow> jsnum \<Rightarrow> bool" where
  "js_le NaN _ = False"
| "js_le _ NaN = False"
| "js_le NegInf _ = True"
| "js_le _ PosInf = True"
| "js_le PosInf _ = False"
| "js_le _ NegInf = False"
| "js_le (Num a) (Num b) = (a \<le> b)"

subsection \<open>Rounding to a double\<close>

text \<open>
  Every arithmetic result is the exact result rounded to the nearest double, a tie going
  to the neighbour with the even significand. \<open>bitLength n\<close> is the number of binary
  digits of \<open>n\<close>, and \<open>exponentOf a\<close>, for a positive \<open>a\<close>, the exponent \<open>e\<close> with
  \<open>2^e \<le> a < 2^(e+1)\<close>.
\<close>

fun bitLength :: "nat \<Rightarrow> nat" where
  "bitLength n = (if n = 0 then 0 else Suc (bitLength (n div 2)))"

declare bitLength.simps [simp del]

definition exponentOf :: "rat \<Rightarrow> int" where
  "exponentOf a =
     (if 1 \<le> a then int (bitLength (nat \<lfloor>a\<rfloor>)) - 1
      else - int (bitLength (nat (\<lceil>1 / a\<rceil> - 1))))"

definition pow2 :: "int \<Rightarrow> rat" where
  "pow2 i = (if 0 \<le> i then 2 ^ nat i else 1 / 2 ^ nat (- i))"

definition roundHalfEven :: "rat \<Rightarrow> int" where
  "roundHalfEven x =
     (let f = \<lfloor>x\<rfloor>; r = x - of_int f in
      if r < 1 / 2 then f
      else if 1 / 2 < r then f + 1
      else if even f then f else f + 1)"

text \<open>
  The doubles around a number of exponent \<open>e\<close> are the multiples of \<open>2^(e - 52)\<close>, a
  significand of 53 binary digits; below \<open>2^(-1022)\<close> the spacing stays that of the
  smallest normal exponent. A result that rounds to \<open>2^1024\<close> or more is an infinity.
\<close>

definition roundDouble :: "rat \<Rightarrow> jsnum" where
  "roundDouble q =
     (if q = 0 then Num 0
      else
        (let a = \<bar>q\<bar>;
             ulp = pow2 (max (exponentOf a) (- 1022) - 52);
             r = of_int (roundHalfEven (a / ulp)) * ulp
         in if 2 ^ 1024 \<le> r then (if q < 0 then NegInf else PosInf)
            else Num (if q < 0 then - r else r)))"

text \<open>\<^verbatim>\<open>x / d\<close> for a finite positive constant \<open>d\<close>, which is all the program divides by.\<close>

fun js_div :: "jsnum \<Rightarrow> rat \<Rightarrow> jsnum" where
  "js_div NaN d = NaN"
| "js_div NegInf d = NegInf"
| "js_div PosInf d = PosInf"
| "js_div (Num n) d = roundDouble (n / d)"

subsection \<open>\<^verbatim>\<open>parseInt(string, 10)\<close>\<close>

text \<open>
  The built-in \<^verbatim>\<open>parseInt\<close> with radix 10: skip leading white space, read an optional
  sign, take the longest prefix of decimal digits, and return the double nearest to the
  integer they spell; no digit at all gives \<open>NaN\<close>. (The language lets an implementation
  read digits after the twentieth as zeros; Node's engine rounds the whole integer
  correctly, which is what is modelled.)

  A string is a list of characters, and a character stands for the UTF-16 code unit of
  the same number: the strings of the model are those of code units below 256. The white
  space among these is TAB, LF, VT, FF, CR, SP and the no-break space U+00A0; the white
  space that the language knows above U+00FF (U+FEFF among it) is not a character of this
  type.
\<close>

definition isWhiteSpace :: "char \<Rightarrow> bool" where
  "isWhiteSpace c =
     (c \<in> set [CHR 0x09, CHR 0x0A, CHR 0x0B, CHR 0x0C, CHR 0x0D, CHR '' '', CHR 0xA0])"

definition isDigit :: "char \<Rightarrow> bool" where
  "isDigit c = (48 \<le> (of_char c :: nat) \<and> (of_char c :: nat) \<le> 57)"

definition digitValue :: "char \<Rightarrow> nat" where
  "digitValue c = of_char c - 48"

definition mathInt :: "string \<Rightarrow> nat" where
  "mathInt Z = foldl (\<lambda>acc c. 10 * acc + digitValue c) 0 Z"

definition parseInt10 :: "string \<Rightarrow> jsnum" where
  "parseInt10 inputString =
    (let S = dropWhile isWhiteSpace inputString;
         sign = (case S of [] \<Rightarrow> (1::int) | c # _ \<Rightarrow> if c = CHR ''-'' then - 1 else 1);
         S' = (case S of [] \<Rightarrow> S | c # cs \<Rightarrow> if c = CHR ''+'' \<or> c = CHR ''-'' then cs else S);
         Z = takeWhile isDigit S'
     in if Z = [] then NaN else roundDouble (of_int (sign * int (mathInt Z))))"

section \<open>Payment requirements and the budget policy\<close>

text \<open>
  One offer of a server's 402 response. The policy reads the two amount fields only; each
  is a string of the protocol's schema or absent (\<open>None\<close> is JavaScript's
  \<^verbatim>\<open>undefined\<close>). Every other field of an offer lives in the record's extension, which
  the policy never touches.
\<close>

record PaymentRequirement =
  scheme :: string
  pr_network :: string
  maxAmountRequired :: "string option"
  amount :: "string option"
  asset :: string
  payTo :: string

text \<open>
  \<^verbatim>\<open>a.maxAmountRequired || a.amount || '0'\<close>: \<^verbatim>\<open>||\<close> yields its left operand when that
  is truthy; an absent field and the empty string are falsy.
\<close>

definition amountText :: "'z PaymentRequirement_scheme \<Rightarrow> string" where
  "amountText a =
    (case maxAmountRequired a of
       Some (c # cs) \<Rightarrow> c # cs
     | _ \<Rightarrow> (case amount a of
              Some (c # cs) \<Rightarrow> c # cs
            | _ \<Rightarrow> ''0''))"

text \<open>\<^verbatim>\<open>const amountCents = parseInt(..., 10) / 10000\<close>\<close>

definition amountCents :: "'z PaymentRequirement_scheme \<Rightarrow> jsnum" where
  "amountCents a = js_div (parseInt10 (amountText a)) 10000"

type_synonym 'z policy =
  "nat \<Rightarrow> 'z PaymentRequirement_scheme list \<Rightarrow> 'z PaymentRequirement_scheme list"

text \<open>
  The arrow function \<^verbatim>\<open>(version, accepts) => accepts.filter(a => ...)\<close> that
  \<^verbatim>\<open>createWallet\<close> registers, closed over \<^verbatim>\<open>maxPayment\<close>.
\<close>

definition maxPaymentPolicy :: "jsnum \<Rightarrow> 'z policy" where
  "maxPaymentPolicy maxPayment version accepts =
     filter (\<lambda>a. js_le (amountCents a) maxPayment) accepts"

text \<open>
  \<^verbatim>\<open>policies: maxPayment ? [ ... ] : undefined\<close>; \<open>None\<close> is \<^verbatim>\<open>undefined\<close>.
\<close>

definition policies :: "jsnum \<Rightarrow> 'z policy list option" where
  "policies maxPayment =
     (if truthy maxPayment then Some [maxPaymentPolicy maxPayment] else None)"

text \<open>
  Modelled from the spec: the protocol client of \<^verbatim>\<open>@x402/core\<close> is not part of this
  repository. It is constructed with an ordered list of requirement-filtering policies
  and passes the offers of a 402 response through each of them in turn; with no list
  there is nothing to pass through.
\<close>

fun applyPolicies :: "'z policy list option \<Rightarrow> 'z policy" where
  "applyPolicies None version accepts = accepts"
| "applyPolicies (Some ps) version accepts = fold (\<lambda>p acc. p version acc) ps accepts"

text \<open>The payment policy in force for a budget: what the client does with the list above.\<close>

definition paymentPolicy :: "jsnum \<Rightarrow> 'z policy" where
  "paymentPolicy maxPayment = applyPolicies (policies maxPayment)"

subsection \<open>The policy in the words of its specification\<close>

text \<open>
  What is claimed of the policy is stated with the definitions of this subsection, which
  are written from the wording of the claims and not from the code. A budget is positive
  when it is a positive number or infinite.
\<close>

fun positive :: "jsnum \<Rightarrow> bool" where
  "positive (Num r) = (0 < r)"
| "positive PosInf = True"
| "positive NaN = False"
| "positive NegInf = False"

text \<open>
  The amount of an offer is taken from \<^verbatim>\<open>maxAmountRequired\<close>, falling back to \<^verbatim>\<open>amount\<close>
  and then to \<^verbatim>\<open>'0'\<close>; a field is given when it is present and not the empty string.
\<close>

definition given :: "string option \<Rightarrow> bool" where
  "given field \<longleftrightarrow> field \<noteq> None \<and> field \<noteq> Some []"

definition claimedAmount :: "'z PaymentRequirement_scheme \<Rightarrow> string" where
  "claimedAmount a =
     (if given (maxAmountRequired a) then the (maxAmountRequired a)
      else if given (amount a) then the (amount a)
      else ''0'')"

text \<open>
  A digit string read in base 10: its last digit counts once, the digits before it ten
  times as much.
\<close>

primrec fromLeastDigit :: "string \<Rightarrow> nat" where
  "fromLeastDigit [] = 0"
| "fromLeastDigit (c # cs) = digitValue c + 10 * fromLeastDigit cs"

definition base10 :: "string \<Rightarrow> nat" where
  "base10 ds = fromLeastDigit (rev ds)"

text \<open>
  A text parses as the integer \<open>n\<close> when it is white space, an optional sign, a run of
  digits that spells \<open>n\<close> and that no further digit follows, and anything after that.
\<close>

definition parsesAs :: "string \<Rightarrow> int \<Rightarrow> bool" where
  "parsesAs s n \<longleftrightarrow>
     (\<exists>ws sgn ds rest.
        s = ws @ sgn @ ds @ rest \<and> list_all isWhiteSpace ws \<and> sgn \<in> {[], ''+'', ''-''} \<and>
        ds \<noteq> [] \<and> list_all isDigit ds \<and> (rest = [] \<or> \<not> isDigit (hd rest)) \<and>
        n = (if sgn = ''-'' then - int (base10 ds) else int (base10 ds)))"

text \<open>
  An offer is within the budget when its amount parses as an integer and that integer, as
  a number of the language, divided by \<open>10^4\<close> is at most the budget.
\<close>

definition withinBudget :: "jsnum \<Rightarrow> 'z PaymentRequirement_scheme \<Rightarrow> bool" where
  "withinBudget maxPayment a \<longleftrightarrow>
     (\<exists>n. parsesAs (claimedAmount a) n
          \<and> js_le (js_div (roundDouble (of_int n)) (10 ^ 4)) maxPayment)"

section \<open>Failures\<close>

text \<open>
  A JavaScript exception, or a rejected promise, is a value. The wallet raises one error of
  its own in the code modelled here, \<^verbatim>\<open>Unknown USDC address for network ${network}\<close>;
  \<open>PolicyRejection\<close> is the failure of the payment-wrapped fetch when no offer survives
  the policies; whatever else a collaborator or a built-in raises is \<open>Raised\<close> with its
  message and passes through the wallet unchanged.
\<close>

datatype error =
    UnknownUsdcAddress string
  | PolicyRejection
  | Raised string

section \<open>Wallet creation\<close>

text \<open>
  The \<^verbatim>\<open>options\<close> argument of \<^verbatim>\<open>createWallet\<close>; \<open>None\<close> is a property that is
  omitted or \<^verbatim>\<open>undefined\<close>, for which the destructuring pattern supplies its default.
\<close>

record options =
  opt_network :: "string option"
  opt_rpcUrl :: "string option"
  opt_maxPayment :: "jsnum option"

definition noOptions :: options where
  "noOptions = \<lparr>opt_network = None, opt_rpcUrl = None, opt_maxPayment = None\<rparr>"

text \<open>\<^verbatim>\<open>const { network = 'eip155:8453', rpcUrl, maxPayment = 100 } = options\<close>\<close>

definition networkOf :: "options \<Rightarrow> string" where
  "networkOf opts = (case opt_network opts of None \<Rightarrow> ''eip155:8453'' | Some n \<Rightarrow> n)"

definition maxPaymentOf :: "options \<Rightarrow> jsnum" where
  "maxPaymentOf opts = (case opt_maxPayment opts of None \<Rightarrow> Num 100 | Some m \<Rightarrow> m)"

text \<open>The policy of a wallet created with the given options.\<close>

definition walletPolicy :: "options \<Rightarrow> 'z policy" where
  "walletPolicy opts = paymentPolicy (maxPaymentOf opts)"

text \<open>
  \<^verbatim>\<open>privateKey.startsWith('0x') ? privateKey : `0x${privateKey}`\<close>
\<close>

definition normalizedKey :: "string \<Rightarrow> string" where
  "normalizedKey privateKey =
     (if prefix ''0x'' privateKey then privateKey else ''0x'' @ privateKey)"

text \<open>The characters of a hex key: the digits and the letters a to f in either case.\<close>

definition isHexDigit :: "char \<Rightarrow> bool" where
  "isHexDigit c = (c \<in> set ''0123456789abcdefABCDEF'')"

text \<open>
  The account that \<^verbatim>\<open>privateKeyToAccount\<close> of \<^verbatim>\<open>viem/accounts\<close> derives; the wallet reads
  its address, the signing capability lives in the record's extension.
\<close>

record account =
  address :: string

datatype chain = base | baseSepolia

text \<open>
  What the closures of the object returned by \<^verbatim>\<open>createWallet\<close> hold on to: the account's
  address, the network identifier, the chain profile and endpoint of the public client,
  and the policies handed to the protocol client.
\<close>

record 'z wallet =
  w_address :: string
  w_network :: string
  w_chain :: chain
  w_rpcUrl :: "string option"
  w_policies :: "'z policy list option"

text \<open>
  \<^verbatim>\<open>createWallet(privateKey, options)\<close>. The account derivation is a collaborator and a
  parameter here; its failure on an ill-formed key surfaces unchanged.
\<close>

definition createWallet ::
  "(string \<Rightarrow> error + 'k account_scheme) \<Rightarrow> string \<Rightarrow> options \<Rightarrow> error + 'z wallet" where
  "createWallet privateKeyToAccount privateKey opts =
    (case privateKeyToAccount (normalizedKey privateKey) of
       Inl e \<Rightarrow> Inl e
     | Inr acct \<Rightarrow>
         Inr \<lparr>w_address = address acct,
              w_network = networkOf opts,
              w_chain = (if networkOf opts = ''eip155:84532'' then baseSepolia else base),
              w_rpcUrl = opt_rpcUrl opts,
              w_policies = policies (maxPaymentOf opts)\<rparr>)"

section \<open>The convenience requests \<^verbatim>\<open>get\<close> and \<^verbatim>\<open>post\<close>\<close>

record request =
  req_url :: string
  req_method :: string
  req_headers :: "(string \<times> string) list"
  req_body :: "string option"

text \<open>
  A response as the wallet uses it: the status, the header entries, and the outcome of
  \<^verbatim>\<open>await response.text()\<close>, which may itself fail while the body is read.
\<close>

record response =
  resp_status :: nat
  resp_headers :: "(string \<times> string) list"
  resp_text :: "error + string"

text \<open>\<^verbatim>\<open>Headers.has(name)\<close> compares header names without regard to ASCII case.\<close>

definition lowerChar :: "char \<Rightarrow> char" where
  "lowerChar c =
     (case map_of (zip ''ABCDEFGHIJKLMNOPQRSTUVWXYZ'' ''abcdefghijklmnopqrstuvwxyz'') c of
        Some l \<Rightarrow> l
      | None \<Rightarrow> c)"

definition headers_has :: "(string \<times> string) list \<Rightarrow> string \<Rightarrow> bool" where
  "headers_has hs name = (map lowerChar name \<in> set (map (map lowerChar \<circ> fst) hs))"

text \<open>
  The payment-confirmation headers of the protocol: \<^verbatim>\<open>X-PAYMENT-RESPONSE\<close> and
  \<^verbatim>\<open>PAYMENT-RESPONSE\<close>, in any letter case.
\<close>

definition isPaymentConfirmation :: "string \<Rightarrow> bool" where
  "isPaymentConfirmation name =
     (map lowerChar name = ''x-payment-response'' \<or> map lowerChar name = ''payment-response'')"

text \<open>
  The \<^verbatim>\<open>data\<close> of a result is what \<^verbatim>\<open>JSON.parse\<close> returned, or the body text itself.
\<close>

datatype 'j payload = Parsed 'j | Text string

record 'j result =
  status :: nat
  data :: "'j payload"
  paid :: bool

text \<open>
  The lines that \<^verbatim>\<open>get\<close> and \<^verbatim>\<open>post\<close> share word for word, from
  \<^verbatim>\<open>const data = await response.text()\<close> to the returned object. \<^verbatim>\<open>JSON.parse\<close> is a
  parameter: it returns a value or raises, and \<^verbatim>\<open>catch\<close> takes whatever it raises.
\<close>

definition readResponse :: "(string \<Rightarrow> error + 'j) \<Rightarrow> response \<Rightarrow> error + 'j result" where
  "readResponse JSON_parse resp =
    (case resp_text resp of
       Inl e \<Rightarrow> Inl e
     | Inr body \<Rightarrow>
         Inr \<lparr>status = resp_status resp,
              data = (case JSON_parse body of Inl _ \<Rightarrow> Text body | Inr parsed \<Rightarrow> Parsed parsed),
              paid = (headers_has (resp_headers resp) ''x-payment-response''
                      \<or> headers_has (resp_headers resp) ''payment-response'')\<rparr>)"

definition getRequest :: "string \<Rightarrow> (string \<times> string) list \<Rightarrow> request" where
  "getRequest u hs = \<lparr>req_url = u, req_method = ''GET'', req_headers = hs, req_body = None\<rparr>"

text \<open>
  \<^verbatim>\<open>{ 'Content-Type': 'application/json', ...headers }\<close>: the caller's entries are
  copied over the literal's, replacing the value of a key that is already there.
\<close>

definition spread ::
  "(string \<times> string) list \<Rightarrow> (string \<times> string) list \<Rightarrow> (string \<times> string) list" where
  "spread literal hs = fold (\<lambda>(k, v). AList.update k v) hs literal"

definition postRequest :: "string \<Rightarrow> string option \<Rightarrow> (string \<times> string) list \<Rightarrow> request" where
  "postRequest u b hs =
     \<lparr>req_url = u, req_method = ''POST'',
      req_headers = spread [(''Content-Type'', ''application/json'')] hs,
      req_body = b\<rparr>"

text \<open>
  \<^verbatim>\<open>wallet.get(url, headers)\<close> and \<^verbatim>\<open>wallet.post(url, body, headers)\<close>. The
  payment-wrapped fetch is a parameter: it returns the final response of the logical call
  or fails. \<^verbatim>\<open>JSON.stringify\<close> may raise, and yields no text for \<^verbatim>\<open>undefined\<close>.
\<close>

definition get ::
  "(request \<Rightarrow> error + response) \<Rightarrow> (string \<Rightarrow> error + 'j) \<Rightarrow>
   string \<Rightarrow> (string \<times> string) list \<Rightarrow> error + 'j result" where
  "get paidFetch JSON_parse u hs =
    (case paidFetch (getRequest u hs) of
       Inl e \<Rightarrow> Inl e
     | Inr resp \<Rightarrow> readResponse JSON_parse resp)"

definition post ::
  "(request \<Rightarrow> error + response) \<Rightarrow> (string \<Rightarrow> error + 'j) \<Rightarrow> ('b \<Rightarrow> error + string option) \<Rightarrow>
   string \<Rightarrow> 'b \<Rightarrow> (string \<times> string) list \<Rightarrow> error + 'j result" where
  "post paidFetch JSON_parse JSON_stringify u b hs =
    (case JSON_stringify b of
       Inl e \<Rightarrow> Inl e
     | Inr bodyText \<Rightarrow>
         (case paidFetch (postRequest u bodyText hs) of
            Inl e \<Rightarrow> Inl e
          | Inr resp \<Rightarrow> readResponse JSON_parse resp))"

section \<open>Balance queries\<close>

text \<open>
  \<^verbatim>\<open>const USDC_ADDRESSES = { 'eip155:8453': ..., 'eip155:84532': ... }\<close>: the own
  properties of the object literal, in their order.
\<close>

definition USDC_ADDRESSES :: "(string \<times> string) list" where
  "USDC_ADDRESSES =
     [(''eip155:8453'', ''0x833589fCD6eDb6E08f4c7C32D4f71b54bdA02913''),
      (''eip155:84532'', ''0x036CbD53842c5426634e7929541eC2318f3dCF7e'')]"

text \<open>
  What \<^verbatim>\<open>USDC_ADDRESSES[network]\<close> can evaluate to. A property read on an object literal
  looks at the object's own properties and then at its prototype, \<^verbatim>\<open>Object.prototype\<close>:
  for a key such as \<^verbatim>\<open>constructor\<close> or \<^verbatim>\<open>toString\<close> the read yields the inherited member
  (a function, or for \<^verbatim>\<open>__proto__\<close> the prototype object), and only otherwise
  \<^verbatim>\<open>undefined\<close>.
\<close>

datatype jsvalue = Undefined | Str string | Inherited string

definition objectPrototypeKeys :: "string list" where
  "objectPrototypeKeys =
     [''constructor'', ''__defineGetter__'', ''__defineSetter__'', ''hasOwnProperty'',
      ''__lookupGetter__'', ''__lookupSetter__'', ''isPrototypeOf'', ''propertyIsEnumerable'',
      ''toString'', ''valueOf'', ''__proto__'', ''toLocaleString'']"

definition getProperty :: "(string \<times> string) list \<Rightarrow> string \<Rightarrow> jsvalue" where
  "getProperty obj key =
     (case map_of obj key of
        Some v \<Rightarrow> Str v
      | None \<Rightarrow> if key \<in> set objectPrototypeKeys then Inherited key else Undefined)"

text \<open>\<^verbatim>\<open>!usdcAddress\<close>: \<^verbatim>\<open>undefined\<close> and the empty string are falsy, a function or object is not.\<close>

fun falsy :: "jsvalue \<Rightarrow> bool" where
  "falsy Undefined = True"
| "falsy (Str s) = (s = [])"
| "falsy (Inherited _) = False"

text \<open>
  The argument of \<^verbatim>\<open>publicClient.readContract\<close>, without the constant \<^verbatim>\<open>abi\<close>. The
  call for \<^verbatim>\<open>decimals\<close> passes no \<^verbatim>\<open>args\<close>.
\<close>

record readContractArgs =
  rc_address :: jsvalue
  functionName :: string
  args :: "string list option"

text \<open>
  The chain client is a collaborator: a read answers with a decoded value or fails, and
  the world behind it (the chain, the RPC endpoint) may change with every call. Both
  outputs that \<^verbatim>\<open>ERC20_ABI\<close> declares, \<^verbatim>\<open>uint256\<close> and \<^verbatim>\<open>uint8\<close>, decode to naturals.
\<close>

type_synonym 's chainClient = "'s \<Rightarrow> readContractArgs \<Rightarrow> (error + nat) \<times> 's"

text \<open>A chain client that also records, in order, every call it receives.\<close>

definition logged :: "'s chainClient \<Rightarrow> (readContractArgs list \<times> 's) chainClient" where
  "logged readContract st call =
     (case st of (trace, s) \<Rightarrow>
        (case readContract s call of (r, s') \<Rightarrow> (r, (trace @ [call], s'))))"

text \<open>\<^verbatim>\<open>balance.toString()\<close> of a non-negative \<^verbatim>\<open>BigInt\<close>: its decimal digits.\<close>

definition digitChar :: "nat \<Rightarrow> char" where
  "digitChar d = ''0123456789'' ! d"

fun toString :: "nat \<Rightarrow> string" where
  "toString n =
     (if n < 10 then [digitChar n] else toString (n div 10) @ [digitChar (n mod 10)])"

declare toString.simps [simp del]

definition stripTrailingZeros :: "string \<Rightarrow> string" where
  "stripTrailingZeros s = rev (dropWhile (\<lambda>c. c = CHR ''0'') (rev s))"

text \<open>
  Modelled from the spec: \<^verbatim>\<open>formatUnits\<close> is imported from \<^verbatim>\<open>viem\<close> and is not part of
  this repository. It scales the raw integer by \<open>10\<close> to the minus \<open>decimals\<close> and renders
  a decimal string: the digits are padded with zeros to at least \<open>decimals\<close> places, the
  last \<open>decimals\<close> of them are the fraction, whose trailing zeros are dropped, and an empty
  integer part reads \<^verbatim>\<open>0\<close>.
\<close>

definition formatUnits :: "nat \<Rightarrow> nat \<Rightarrow> string" where
  "formatUnits v decimals =
    (let display = toString v;
         display = replicate (decimals - length display) (CHR ''0'') @ display;
         integer = take (length display - decimals) display;
         fraction = stripTrailingZeros (drop (length display - decimals) display)
     in (if integer = [] then ''0'' else integer)
        @ (if fraction = [] then [] else CHR ''.'' # fraction))"

record balanceInfo =
  balance :: string
  formatted :: string
  currency :: string
  network :: string

text \<open>
  \<^verbatim>\<open>wallet.getBalance()\<close>: the guard on the looked-up address, then the two reads one
  after the other; a failed read ends the call with that failure.
\<close>

definition getBalance ::
  "'z wallet \<Rightarrow> 's chainClient \<Rightarrow> 's \<Rightarrow> (error + balanceInfo) \<times> 's" where
  "getBalance w readContract s =
    (let usdcAddress = getProperty USDC_ADDRESSES (w_network w) in
     if falsy usdcAddress then (Inl (UnknownUsdcAddress (w_network w)), s)
     else
       (case readContract s \<lparr>rc_address = usdcAddress, functionName = ''balanceOf'',
                              args = Some [w_address w]\<rparr> of
          (Inl e, s1) \<Rightarrow> (Inl e, s1)
        | (Inr bal, s1) \<Rightarrow>
            (case readContract s1 \<lparr>rc_address = usdcAddress, functionName = ''decimals'',
                                    args = None\<rparr> of
               (Inl e, s2) \<Rightarrow> (Inl e, s2)
             | (Inr decimals, s2) \<Rightarrow>
                 (Inr \<lparr>balance = toString bal, formatted = formatUnits bal decimals,
                       currency = ''USDC'', network = w_network w\<rparr>, s2))))"

text \<open>
  The number a decimal string denotes, to say what the two strings of a balance mean:
  digits, optionally followed by a point and more digits.
\<close>

definition decimalValue :: "string \<Rightarrow> rat option" where
  "decimalValue s =
    (let whole = takeWhile isDigit s; rest = dropWhile isDigit s in
     if whole = [] then None
     else (case rest of
             [] \<Rightarrow> Some (of_nat (mathInt whole))
           | c # digits \<Rightarrow>
               if c = CHR ''.'' \<and> digits \<noteq> [] \<and> list_all isDigit digits
               then Some (of_nat (mathInt whole) + of_nat (mathInt digits) / 10 ^ length digits)
               else None))"

section \<open>The payment-wrapped fetch\<close>

text \<open>
  \<^verbatim>\<open>const paidFetch = wrapFetchWithPayment(fetch, client)\<close>: the wallet only calls the
  wrapper, which is imported from \<^verbatim>\<open>@x402/fetch\<close>; its code is not under the sources of
  this repository. Every definition of this section is modelled from the specification of
  the PaidFetchOrchestrator, one logical request at a time. Everything the machine does to
  the outside is recorded: the underlying HTTP requests and the requests for a signed
  authorization.
\<close>

datatype 'z effect = HttpRequest request | SignRequest "'z PaymentRequirement_scheme list"

fun isHttpRequest :: "'z effect \<Rightarrow> bool" where
  "isHttpRequest (HttpRequest _) = True"
| "isHttpRequest (SignRequest _) = False"

text \<open>
  Modelled from the spec: the collaborators of the orchestrator, the base transport, the
  protocol's parser of a 402 response (the version and the ordered offers), the payment
  policy, and the scheme client, which selects among the accepted offers and signs; it
  yields the payment header.
\<close>

record ('z, 's) collaborators =
  transport :: "'s \<Rightarrow> request \<Rightarrow> (error + response) \<times> 's"
  parseRequirements :: "response \<Rightarrow> error + nat \<times> 'z PaymentRequirement_scheme list"
  budgetPolicy :: "'z policy"
  schemeClient ::
    "'s \<Rightarrow> 'z PaymentRequirement_scheme list \<Rightarrow> (error + string \<times> string) \<times> 's"

text \<open>
  Modelled from the spec: the states of one logical request. \<open>Success\<close>, \<open>Refused\<close> (the retried response is 402
  again), \<open>Rejected\<close> (no offer within the policy) and \<open>Failed\<close> (a collaborator's failure,
  surfaced unchanged) are terminal.
\<close>

datatype phase =
    Initial
  | PaymentRequired response
  | Retry "string \<times> string"
  | Success response
  | Refused response
  | Rejected response
  | Failed error

fun finished :: "phase \<Rightarrow> (error + response) option" where
  "finished Initial = None"
| "finished (PaymentRequired _) = None"
| "finished (Retry _) = None"
| "finished (Success resp) = Some (Inr resp)"
| "finished (Refused resp) = Some (Inr resp)"
| "finished (Rejected _) = Some (Inl PolicyRejection)"
| "finished (Failed e) = Some (Inl e)"

definition withPayment :: "request \<Rightarrow> string \<times> string \<Rightarrow> request" where
  "withPayment rq header = rq\<lparr>req_headers := spread (req_headers rq) [header]\<rparr>"

text \<open>
  Modelled from the spec: the transitions of the PaidFetchOrchestrator, whose code is in
  \<^verbatim>\<open>@x402/fetch\<close> and \<^verbatim>\<open>@x402/core\<close> and not under the sources of this repository.
  Initial: issue the request. A status other than 402 is success. Payment required: parse
  the offers and apply the policy; an empty result is a rejection with no signing,
  otherwise the scheme client is asked for an authorization. Retry: reissue the request
  once with the payment header; whatever comes back ends the call.
\<close>

fun step ::
  "('z, 's) collaborators \<Rightarrow> request \<Rightarrow>
   phase \<times> 'z effect list \<times> 's \<Rightarrow> phase \<times> 'z effect list \<times> 's" where
  "step c rq (Initial, tr, s) =
     (case transport c s rq of
        (Inl e, s') \<Rightarrow> (Failed e, tr @ [HttpRequest rq], s')
      | (Inr resp, s') \<Rightarrow>
          (if resp_status resp = 402 then PaymentRequired resp else Success resp,
           tr @ [HttpRequest rq], s'))"
| "step c rq (PaymentRequired resp, tr, s) =
     (case parseRequirements c resp of
        Inl e \<Rightarrow> (Failed e, tr, s)
      | Inr (version, offers) \<Rightarrow>
          (let accepted = budgetPolicy c version offers in
           if accepted = [] then (Rejected resp, tr, s)
           else (case schemeClient c s accepted of
                   (Inl e, s') \<Rightarrow> (Failed e, tr @ [SignRequest accepted], s')
                 | (Inr header, s') \<Rightarrow> (Retry header, tr @ [SignRequest accepted], s'))))"
| "step c rq (Retry header, tr, s) =
     (case transport c s (withPayment rq header) of
        (Inl e, s') \<Rightarrow> (Failed e, tr @ [HttpRequest (withPayment rq header)], s')
      | (Inr resp, s') \<Rightarrow>
          (if resp_status resp = 402 then Refused resp else Success resp,
           tr @ [HttpRequest (withPayment rq header)], s'))"
| "step c rq (Success resp, tr, s) = (Success resp, tr, s)"
| "step c rq (Refused resp, tr, s) = (Refused resp, tr, s)"
| "step c rq (Rejected resp, tr, s) = (Rejected resp, tr, s)"
| "step c rq (Failed e, tr, s) = (Failed e, tr, s)"

fun stepsLeft :: "phase \<Rightarrow> nat" where
  "stepsLeft Initial = 3"
| "stepsLeft (PaymentRequired _) = 2"
| "stepsLeft (Retry _) = 1"
| "stepsLeft _ = 0"

text \<open>
  Modelled from the spec: the machine runs to a terminal state; every transition brings
  one nearer.
\<close>

function orchestrate ::
  "('z, 's) collaborators \<Rightarrow> request \<Rightarrow>
   phase \<times> 'z effect list \<times> 's \<Rightarrow> (error + response) \<times> 'z effect list \<times> 's" where
  "orchestrate c rq (p, tr, s) =
     (case finished p of
        Some outcome \<Rightarrow> (outcome, tr, s)
      | None \<Rightarrow> orchestrate c rq (step c rq (p, tr, s)))"
  by pat_completeness auto
termination
proof (relation "measure (\<lambda>(c, rq, p, tr, s). stepsLeft p)")
  show "wf (measure (\<lambda>(c, rq, p, tr, s). stepsLeft p))"
    by simp
next
  fix c :: "('z, 's) collaborators" and rq p and tr :: "'z effect list" and s :: 's
  assume "finished p = None"
  then show "((c, rq, step c rq (p, tr, s)), (c, rq, p, tr, s))
      \<in> measure (\<lambda>(c, rq, p, tr, s). stepsLeft p)"
    by (cases p) (auto split: prod.splits sum.splits simp: Let_def)
qed

text \<open>
  Modelled from the spec: one logical call through the wrapped fetch, from the initial
  state with nothing done yet.
\<close>

definition wrapFetchWithPayment ::
  "('z, 's) collaborators \<Rightarrow> request \<Rightarrow> 's \<Rightarrow> (error + response) \<times> 'z effect list \<times> 's" where
  "wrapFetchWithPayment c rq s = orchestrate c rq (Initial, [], s)"

text \<open>How many more HTTP requests a state may still lead to.\<close>

fun requestsLeft :: "phase \<Rightarrow> nat" where
  "requestsLeft Initial = 2"
| "requestsLeft (PaymentRequired _) = 1"
| "requestsLeft (Retry _) = 1"
| "requestsLeft _ = 0"

section \<open>Sample data for the worked instances\<close>

text \<open>An offer of the \<^verbatim>\<open>exact\<close> scheme on Base that names its price in \<^verbatim>\<open>maxAmountRequired\<close>.\<close>

definition offer :: "string \<Rightarrow> PaymentRequirement" where
  "offer amt =
     \<lparr>scheme = ''exact'', pr_network = ''eip155:8453'', maxAmountRequired = Some amt,
      amount = None, asset = ''0x833589fCD6eDb6E08f4c7C32D4f71b54bdA02913'',
      payTo = ''0x209693Bc6afc0C5328bA36FaF03C514EF312287C''\<rparr>"

text \<open>Offers that name their price in \<^verbatim>\<open>amount\<close>, or give both fields.\<close>

definition offerWith :: "string option \<Rightarrow> string option \<Rightarrow> PaymentRequirement" where
  "offerWith maxAmount amt =
     \<lparr>scheme = ''exact'', pr_network = ''eip155:8453'', maxAmountRequired = maxAmount,
      amount = amt, asset = ''0x833589fCD6eDb6E08f4c7C32D4f71b54bdA02913'',
      payTo = ''0x209693Bc6afc0C5328bA36FaF03C514EF312287C''\<rparr>"

text \<open>An offer that names no price at all.\<close>

definition unpricedOffer :: PaymentRequirement where
  "unpricedOffer =
     \<lparr>scheme = ''exact'', pr_network = ''eip155:8453'', maxAmountRequired = None,
      amount = None, asset = ''0x833589fCD6eDb6E08f4c7C32D4f71b54bdA02913'',
      payTo = ''0x209693Bc6afc0C5328bA36FaF03C514EF312287C''\<rparr>"

text \<open>The key of the repository's test file, without its \<^verbatim>\<open>0x\<close>.\<close>

definition TEST_KEY :: string where
  "TEST_KEY = ''0123456789abcdef0123456789abcdef0123456789abcdef0123456789abcdef''"

text \<open>
  A stand-in for the account derivation: it refuses what is not \<^verbatim>\<open>0x\<close> and 64 hex digits
  and makes an address of the last 40 digits otherwise.
\<close>

definition sampleAccount :: "string \<Rightarrow> error + account" where
  "sampleAccount key =
     (if length key = 66 \<and> take 2 key = ''0x'' \<and> list_all isHexDigit (drop 2 key)
      then Inr \<lparr>address = ''0x'' @ drop 26 key\<rparr>
      else Inl (Raised ''invalid private key''))"

definition sampleWallet :: "unit wallet" where
  "sampleWallet =
     \<lparr>w_address = ''0x89abcdef0123456789abcdef0123456789abcdef'', w_network = ''eip155:8453'',
      w_chain = base, w_rpcUrl = None, w_policies = None\<rparr>"

text \<open>A chain that answers 1234567 units at 6 decimals and counts its calls.\<close>

definition sampleChain :: "nat chainClient" where
  "sampleChain height call =
     (if functionName call = ''balanceOf'' then (Inr 1234567, Suc height)
      else if functionName call = ''decimals'' then (Inr 6, Suc height)
      else (Inl (Raised ''ContractFunctionExecutionError''), height))"

text \<open>A parser that knows the three JSON literals and raises on everything else.\<close>

datatype literal = JNull | JBool bool

definition sampleParse :: "string \<Rightarrow> error + literal" where
  "sampleParse s =
     (if s = ''null'' then Inr JNull
      else if s = ''true'' then Inr (JBool True)
      else if s = ''false'' then Inr (JBool False)
      else Inl (Raised ''SyntaxError''))"

definition sampleStringify :: "string \<Rightarrow> error + string option" where
  "sampleStringify s = Inr (Some (CHR 0x22 # s @ [CHR 0x22]))"

text \<open>A paid response with a plain-text body, and a fetch that always returns it.\<close>

definition sampleResponse :: response where
  "sampleResponse =
     \<lparr>resp_status = 200,
      resp_headers = [(''Content-Type'', ''text/plain''),
                      (''PAYMENT-RESPONSE'', ''eyJzdWNjZXNzIjp0cnVlfQ=='')],
      resp_text = Inr ''pong''\<rparr>"

definition respondWith :: "response \<Rightarrow> request \<Rightarrow> error + response" where
  "respondWith resp rq = Inr resp"

text \<open>
  A server that answers 402 to every request, a parser that finds one offer at the given
  price, a budget of 50 cents, and a scheme client that signs whatever it is given.
\<close>

definition paymentRequiredResponse :: response where
  "paymentRequiredResponse =
     \<lparr>resp_status = 402, resp_headers = [(''content-type'', ''application/json'')],
      resp_text = Inr ''{}''\<rparr>"

definition insistentServer :: "nat \<Rightarrow> request \<Rightarrow> (error + response) \<times> nat" where
  "insistentServer n rq = (Inr paymentRequiredResponse, Suc n)"

definition sampleCollaborators :: "string \<Rightarrow> (unit, nat) collaborators" where
  "sampleCollaborators price =
     \<lparr>transport = insistentServer,
      parseRequirements = (\<lambda>resp. Inr (2, [offer price])),
      budgetPolicy = paymentPolicy (Num 50),
      schemeClient = (\<lambda>n accepted. (Inr (''PAYMENT-SIGNATURE'', ''c2lnbmVk''), n))\<rparr>"

definition sampleRequest :: request where
  "sampleRequest = getRequest ''https://api.example.com/data'' []"

section \<open>Rounding to a double\<close>

lemma bitLength_le: "n < 2 ^ k \<Longrightarrow> bitLength n \<le> k"
proof (induction k arbitrary: n)
  case 0
  then show ?case by (simp add: bitLength.simps)
next
  case (Suc k)
  show ?case
  proof (cases "n = 0")
    case True
    then show ?thesis by (simp add: bitLength.simps)
  next
    case False
    from Suc.prems have "n div 2 < 2 ^ k" by simp
    then have "bitLength (n div 2) \<le> k" by (rule Suc.IH)
    with False show ?thesis by (subst bitLength.simps) simp
  qed
qed

lemma bitLength_pos: "0 < n \<Longrightarrow> 0 < bitLength n"
  by (subst bitLength.simps) simp

lemma pow2_pos: "0 < pow2 i"
  by (simp add: pow2_def)

lemma pow2_nonpos: "i \<le> 0 \<Longrightarrow> pow2 i = 1 / 2 ^ nat (- i)"
  by (cases "i = 0") (simp_all add: pow2_def)

lemma pow2_mono: "i \<le> j \<Longrightarrow> pow2 i \<le> pow2 j"
proof -
  assume ij: "i \<le> j"
  have eq: "pow2 k = 2 powi k" for k
    by (simp add: pow2_def power_int_def power_one_over)
  show ?thesis
    unfolding eq using ij by (intro power_int_increasing) simp_all
qed

lemma roundHalfEven_of_int: "roundHalfEven (of_int z) = z"
  by (simp add: roundHalfEven_def)

lemma roundHalfEven_error: "\<bar>of_int (roundHalfEven x) - x\<bar> \<le> 1 / 2"
proof -
  have "of_int \<lfloor>x\<rfloor> \<le> x" and "x < of_int \<lfloor>x\<rfloor> + 1"
    by linarith+
  then show ?thesis
    by (auto simp: roundHalfEven_def Let_def abs_le_iff)
qed

lemma roundDouble_zero: "roundDouble 0 = Num 0"
  by (simp add: roundDouble_def)

lemma exponentOf_nat:
  assumes "0 < n"
  shows "exponentOf (of_nat n) = int (bitLength n) - 1"
  using assms by (simp add: exponentOf_def)

lemma roundDouble_exact_nat:
  assumes "0 < n" and "n < 2 ^ 53"
  shows "of_int (roundHalfEven (of_nat n / pow2 (max (exponentOf (of_nat n)) (- 1022) - 52)))
           * pow2 (max (exponentOf (of_nat n)) (- 1022) - 52) = (of_nat n :: rat)"
proof -
  define e where "e = int (bitLength n) - 1"
  have e: "exponentOf (of_nat n) = e"
    using assms(1) by (simp add: exponentOf_nat e_def)
  have "0 \<le> e" and "e \<le> 52"
    using bitLength_pos [OF assms(1)] bitLength_le [OF assms(2)] by (simp_all add: e_def)
  then have m: "max e (- 1022) - 52 = - int (nat (52 - e))"
    by simp
  have p: "pow2 (max e (- 1022) - 52) = 1 / 2 ^ nat (52 - e)"
    unfolding m by (simp add: pow2_nonpos)
  have "(of_nat n :: rat) / (1 / 2 ^ nat (52 - e)) = of_int (int n * 2 ^ nat (52 - e))"
    by simp
  then show ?thesis
    unfolding e p by (simp only: roundHalfEven_of_int) simp
qed

text \<open>An integer below \<open>2^53\<close> in absolute value is a double: rounding leaves it alone.\<close>

lemma roundDouble_exact:
  assumes "q \<in> \<int>" and "\<bar>q\<bar> < 2 ^ 53"
  shows "roundDouble q = Num q"
proof (cases "q = 0")
  case True
  then show ?thesis by (simp add: roundDouble_def)
next
  case False
  from assms(1) obtain z where z: "q = of_int z" by (auto elim: Ints_cases)
  define n where "n = nat \<bar>z\<bar>"
  have a: "\<bar>q\<bar> = of_nat n"
    by (simp add: z n_def)
  have "0 < n" using False by (simp add: z n_def)
  moreover have "n < 2 ^ 53"
  proof -
    from assms(2) have "(of_nat n :: rat) < of_nat (2 ^ 53)" by (simp add: a)
    then show ?thesis by (simp only: of_nat_less_iff)
  qed
  ultimately have r:
    "of_int (roundHalfEven (of_nat n / pow2 (max (exponentOf (of_nat n)) (- 1022) - 52)))
           * pow2 (max (exponentOf (of_nat n)) (- 1022) - 52) = (of_nat n :: rat)"
    by (rule roundDouble_exact_nat)
  have small: "\<not> (2 :: rat) ^ 1024 \<le> of_nat n"
  proof -
    have "(of_nat n :: rat) < 2 ^ 53" using assms(2) by (simp add: a)
    also have "\<dots> \<le> 2 ^ 1024" by (rule power_increasing) simp_all
    finally show ?thesis by simp
  qed
  show ?thesis
    using False small unfolding roundDouble_def Let_def a r
    by (auto simp: a [symmetric])
qed

lemma exponentOf_le_39:
  assumes "0 < a" and "a < 2 ^ 40"
  shows "exponentOf a \<le> 39"
proof (cases "1 \<le> a")
  case True
  have "(of_int \<lfloor>a\<rfloor> :: rat) \<le> a"
    by simp
  also have "a < of_int (2 ^ 40)"
    using assms(2) by simp
  finally have "\<lfloor>a\<rfloor> < 2 ^ 40"
    by (simp only: of_int_less_iff)
  moreover have "0 \<le> \<lfloor>a\<rfloor>"
    using True by simp
  ultimately have "nat \<lfloor>a\<rfloor> < 2 ^ 40"
    by (simp add: nat_less_iff)
  then have "bitLength (nat \<lfloor>a\<rfloor>) \<le> 40"
    by (rule bitLength_le)
  with True show ?thesis
    by (simp add: exponentOf_def)
next
  case False
  then show ?thesis
    by (simp add: exponentOf_def)
qed

text \<open>
  Below \<open>2^40\<close> the doubles lie no more than \<open>2^(-13)\<close> apart, so rounding moves a number
  by \<open>2^(-14)\<close> at most, less than the ten-thousandth that one smallest unit is of a cent.
\<close>

lemma roundDouble_near:
  assumes "\<bar>q\<bar> < 2 ^ 40"
  shows "\<exists>r. roundDouble q = Num r \<and> \<bar>r - q\<bar> \<le> 1 / 2 ^ 14"
proof (cases "q = 0")
  case True
  then show ?thesis by (simp add: roundDouble_zero)
next
  case False
  define a where "a = \<bar>q\<bar>"
  define ulp where "ulp = pow2 (max (exponentOf a) (- 1022) - 52)"
  define k where "k = roundHalfEven (a / ulp)"
  define r where "r = of_int k * ulp"
  have a_pos: "0 < a" using False by (simp add: a_def)
  have "exponentOf a \<le> 39"
    using a_pos assms by (intro exponentOf_le_39) (simp_all add: a_def)
  then have "max (exponentOf a) (- 1022) - 52 \<le> - 13"
    by simp
  then have "ulp \<le> pow2 (- 13)"
    unfolding ulp_def by (rule pow2_mono)
  then have ulp_le: "ulp \<le> 1 / 2 ^ 13"
    by (simp add: pow2_nonpos)
  have ulp_pos: "0 < ulp"
    by (simp add: ulp_def pow2_pos)
  have "r - a = (of_int k - a / ulp) * ulp"
    using ulp_pos by (simp add: r_def field_simps)
  then have "\<bar>r - a\<bar> = \<bar>of_int k - a / ulp\<bar> * ulp"
    using ulp_pos by (simp add: abs_mult)
  also have "\<dots> \<le> (1 / 2) * ulp"
    using roundHalfEven_error [of "a / ulp"] ulp_pos
    by (intro mult_right_mono) (simp_all add: k_def)
  also have "\<dots> \<le> (1 / 2) * (1 / 2 ^ 13)"
    using ulp_le by simp
  finally have near: "\<bar>r - a\<bar> \<le> 1 / 2 ^ 14"
    by simp
  from near have "r - a \<le> 1 / 2 ^ 14"
    by (simp only: abs_le_iff)
  also have "\<dots> \<le> (1 :: rat)"
    by simp
  finally have "r \<le> a + 1"
    by simp
  also have "\<dots> < 2 ^ 40 + 1"
    using assms by (simp add: a_def)
  also have "\<dots> \<le> (2 :: rat) ^ 1024"
    by simp
  finally have no_overflow: "\<not> 2 ^ 1024 \<le> r"
    by simp
  have result: "roundDouble q = Num (if q < 0 then - r else r)"
    using False no_overflow
    unfolding roundDouble_def Let_def r_def k_def ulp_def a_def by simp
  have "\<bar>(if q < 0 then - r else r) - q\<bar> = \<bar>r - a\<bar>"
    by (auto simp: a_def)
  with near result show ?thesis
    by auto
qed

text \<open>So a comparison that is not that close is decided by the exact numbers.\<close>

lemma roundDouble_le:
  assumes "\<bar>q\<bar> < 2 ^ 40" and "q + 1 / 2 ^ 14 \<le> m"
  shows "js_le (roundDouble q) (Num m)"
proof -
  from roundDouble_near [OF assms(1)]
  obtain r where r: "roundDouble q = Num r" and near: "\<bar>r - q\<bar> \<le> 1 / 2 ^ 14"
    by blast
  from near have "r \<le> q + 1 / 2 ^ 14"
    by (simp only: abs_le_iff) linarith
  with assms(2) show ?thesis
    by (simp add: r)
qed

lemma roundDouble_not_le:
  assumes "\<bar>q\<bar> < 2 ^ 40" and "m + 1 / 2 ^ 14 < q"
  shows "\<not> js_le (roundDouble q) (Num m)"
proof -
  from roundDouble_near [OF assms(1)]
  obtain r where r: "roundDouble q = Num r" and near: "\<bar>r - q\<bar> \<le> 1 / 2 ^ 14"
    by blast
  from near have "q - 1 / 2 ^ 14 \<le> r"
    by (simp only: abs_le_iff) linarith
  with assms(2) show ?thesis
    by (simp add: r)
qed

text \<open>
  For an amount below \<open>2^53\<close> smallest units and a budget of whole cents, the comparison
  of the doubles is the comparison of the exact numbers.
\<close>

lemma whole_cents_exact:
  fixes n k :: int
  assumes "\<bar>n\<bar> < 2 ^ 53"
  shows "js_le (js_div (roundDouble (of_int n)) 10000) (Num (of_int k)) \<longleftrightarrow> n \<le> 10000 * k"
proof -
  define q :: rat where "q = of_int n / 10000"
  from assms have "(of_int \<bar>n\<bar> :: rat) < of_int (2 ^ 53)"
    by (simp only: of_int_less_iff)
  then have abs_n: "\<bar>of_int n :: rat\<bar> < 2 ^ 53"
    by simp
  have parsed: "roundDouble (of_int n) = Num (of_int n)"
    using abs_n by (intro roundDouble_exact) simp_all
  have cents: "js_div (roundDouble (of_int n)) 10000 = roundDouble q"
    unfolding parsed q_def by simp
  have "\<bar>q\<bar> = \<bar>of_int n\<bar> / 10000"
    by (simp add: q_def)
  also have "\<dots> < 2 ^ 53 / 10000"
    using abs_n by (simp add: divide_strict_right_mono)
  also have "\<dots> \<le> (2 :: rat) ^ 40"
    by simp
  finally have q_small: "\<bar>q\<bar> < 2 ^ 40" .
  from roundDouble_near [OF q_small]
  obtain r where r: "roundDouble q = Num r" and near: "\<bar>r - q\<bar> \<le> 1 / 2 ^ 14"
    by blast
  from near have lo: "q - 1 / 2 ^ 14 \<le> r" and hi: "r \<le> q + 1 / 2 ^ 14"
    by (simp_all only: abs_le_iff) linarith+
  have goal: "js_le (js_div (roundDouble (of_int n)) 10000) (Num (of_int k)) \<longleftrightarrow> r \<le> of_int k"
    unfolding cents r by simp
  consider (eq) "n = 10000 * k" | (below) "n < 10000 * k" | (above) "10000 * k < n"
    by linarith
  then show ?thesis
  proof cases
    case eq
    then have qk: "q = of_int k"
      by (simp add: q_def)
    have "\<bar>of_int k :: rat\<bar> < 2 ^ 53"
    proof -
      have "\<bar>of_int k :: rat\<bar> < 2 ^ 40" using q_small by (simp only: qk)
      also have "\<dots> \<le> (2 :: rat) ^ 53" by simp
      finally show ?thesis .
    qed
    then have "roundDouble (of_int k) = Num (of_int k)"
      by (intro roundDouble_exact) simp_all
    with r have "r = of_int k"
      by (simp only: qk) simp
    with eq show ?thesis
      unfolding goal by simp
  next
    case below
    then have "n \<le> 10000 * k - 1"
      by simp
    then have "(of_int n :: rat) \<le> of_int (10000 * k - 1)"
      by (simp only: of_int_le_iff)
    then have "(of_int n :: rat) \<le> 10000 * of_int k - 1"
      by simp
    then have gap: "q \<le> of_int k - 1 / 10000"
      unfolding q_def by (simp add: field_simps)
    have "r \<le> of_int k"
      using hi gap by simp
    with below show ?thesis
      unfolding goal by simp
  next
    case above
    then have "10000 * k + 1 \<le> n"
      by simp
    then have "(of_int (10000 * k + 1) :: rat) \<le> of_int n"
      by (simp only: of_int_le_iff)
    then have "10000 * of_int k + 1 \<le> (of_int n :: rat)"
      by simp
    then have gap: "of_int k + 1 / 10000 \<le> q"
      unfolding q_def by (simp add: field_simps)
    have "\<not> r \<le> of_int k"
      using lo gap by simp
    with above show ?thesis
      unfolding goal by simp
  qed
qed

lemma bitLength_lower: "0 < n \<Longrightarrow> 2 ^ (bitLength n - 1) \<le> n"
proof (induction n rule: bitLength.induct)
  case (1 n)
  show ?case
  proof (cases "n div 2 = 0")
    case True
    with "1.prems" have "n = 1" by presburger
    then show ?thesis by (simp add: bitLength.simps)
  next
    case False
    then have pos: "0 < n div 2" by simp
    with "1.IH" "1.prems" have IH: "2 ^ (bitLength (n div 2) - 1) \<le> n div 2" by simp
    have len: "bitLength n = Suc (bitLength (n div 2))"
      using "1.prems" by (subst bitLength.simps) simp
    have "0 < bitLength (n div 2)"
      using pos by (rule bitLength_pos)
    then have "(2 :: nat) ^ (bitLength n - 1) = 2 * 2 ^ (bitLength (n div 2) - 1)"
      by (simp add: len flip: power_Suc)
    also have "\<dots> \<le> 2 * (n div 2)"
      using IH by simp
    also have "\<dots> \<le> n"
      by simp
    finally show ?thesis .
  qed
qed

lemma bitLength_gt: "2 ^ k \<le> n \<Longrightarrow> k < bitLength n"
proof (rule ccontr)
  assume le: "2 ^ k \<le> n" and "\<not> k < bitLength n"
  then have "bitLength n \<le> k" by simp
  have "n < 2 ^ bitLength n"
  proof (induction n rule: bitLength.induct)
    case (1 n)
    show ?case
    proof (cases "n = 0")
      case True
      then show ?thesis by simp
    next
      case False
      with "1.IH" have "n div 2 < 2 ^ bitLength (n div 2)" by simp
      then have "n < 2 * 2 ^ bitLength (n div 2)" by linarith
      with False show ?thesis by (subst bitLength.simps) simp
    qed
  qed
  also have "\<dots> \<le> 2 ^ k"
    using \<open>bitLength n \<le> k\<close> by (simp add: power_increasing)
  finally show False using le by simp
qed

text \<open>A number of \<open>2^1024\<close> or more in absolute value is beyond the doubles.\<close>

lemma roundDouble_overflow:
  assumes "2 ^ 1024 \<le> \<bar>q\<bar>"
  shows "roundDouble q = (if q < 0 then NegInf else PosInf)"
proof -
  define a where "a = \<bar>q\<bar>"
  define n where "n = nat \<lfloor>a\<rfloor>"
  define e where "e = bitLength n - 1"
  have a_big: "2 ^ 1024 \<le> a" using assms by (simp add: a_def)
  then have "1 \<le> a"
    by (rule order_trans [rotated]) simp
  have "(2 :: int) ^ 1024 \<le> \<lfloor>a\<rfloor>"
    using a_big by (simp add: le_floor_iff)
  then have n_big: "2 ^ 1024 \<le> n"
    unfolding n_def by (simp add: le_nat_iff)
  then have "1024 < bitLength n" by (rule bitLength_gt)
  then have e_big: "1024 \<le> e" by (simp add: e_def)
  have "0 < n" using n_big by (simp add: less_le_trans [OF _ n_big])
  then have "2 ^ e \<le> n" unfolding e_def by (rule bitLength_lower)
  then have "(of_nat (2 ^ e) :: rat) \<le> of_nat n" by (simp only: of_nat_le_iff)
  also have "(of_nat n :: rat) \<le> a"
    using \<open>1 \<le> a\<close> by (simp add: n_def)
  finally have lower: "2 ^ e \<le> a" by simp
  have exp: "exponentOf a = int e"
    using \<open>1 \<le> a\<close> \<open>1024 < bitLength n\<close> by (simp add: exponentOf_def n_def e_def)
  have ulp: "pow2 (max (exponentOf a) (- 1022) - 52) = 2 ^ (e - 52)"
    using e_big by (simp add: exp pow2_def nat_diff_distrib')
  have "52 + (e - 52) = e"
    using e_big by simp
  then have "(2 :: rat) ^ e = 2 ^ (52 + (e - 52))"
    by simp
  then have split: "(2 :: rat) ^ 52 * 2 ^ (e - 52) = 2 ^ e"
    by (simp only: power_add)
  then have "(2 :: rat) ^ 52 \<le> a / 2 ^ (e - 52)"
    using lower by (simp add: pos_le_divide_eq)
  then have "(of_int (2 ^ 52) :: rat) \<le> a / 2 ^ (e - 52)"
    by simp
  then have "2 ^ 52 \<le> \<lfloor>a / 2 ^ (e - 52)\<rfloor>"
    by (simp only: le_floor_iff)
  moreover have "\<lfloor>x\<rfloor> \<le> roundHalfEven x" for x :: rat
    by (simp add: roundHalfEven_def Let_def)
  ultimately have "2 ^ 52 \<le> roundHalfEven (a / 2 ^ (e - 52))"
    by (rule order_trans)
  then have "(of_int (2 ^ 52) :: rat) \<le> of_int (roundHalfEven (a / 2 ^ (e - 52)))"
    by (simp only: of_int_le_iff)
  then have "(2 :: rat) ^ 52 * 2 ^ (e - 52) \<le> of_int (roundHalfEven (a / 2 ^ (e - 52))) * 2 ^ (e - 52)"
    by (intro mult_right_mono) simp_all
  then have "(2 :: rat) ^ e \<le> of_int (roundHalfEven (a / 2 ^ (e - 52))) * 2 ^ (e - 52)"
    by (simp only: split)
  moreover have "(2 :: rat) ^ 1024 \<le> 2 ^ e"
    using e_big by (intro power_increasing) simp_all
  ultimately have over: "2 ^ 1024 \<le> of_int (roundHalfEven (a / 2 ^ (e - 52))) * (2 :: rat) ^ (e - 52)"
    by (rule order_trans [rotated])
  have "q \<noteq> 0" using assms by auto
  then show ?thesis
    unfolding roundDouble_def Let_def a_def [symmetric] ulp using over by simp
qed

lemma floor_rat_numeral [simp]:
  "\<lfloor>numeral a / numeral b :: rat\<rfloor> = numeral a div numeral b"
  using floor_divide_of_int_eq [of "numeral a" "numeral b", where ?'a = rat] by simp

lemma ceiling_rat_numeral [simp]:
  "\<lceil>numeral a / numeral b :: rat\<rceil> = - (- numeral a div numeral b)"
  using ceiling_divide_eq_div [of "numeral a" "numeral b", where ?'a = rat] by simp

text \<open>
  Worked values. A third of a cent's worth: 3000 units divided by 10000 is the double
  nearest to 0.3. Above \<open>2^53\<close> the doubles are the even integers, and a tie goes to the
  even significand, downwards for 9007199254750001 and upwards for 9007199254750003.
\<close>

lemma roundDouble_three_tenths: "roundDouble (3 / 10) = Num (5404319552844595 / 2 ^ 54)"
  unfolding roundDouble_def Let_def
  apply (simp add: exponentOf_def bitLength.simps)
  apply (simp add: pow2_def)
  apply (simp add: roundHalfEven_def Let_def)
  done

lemma roundDouble_tie_down: "roundDouble 9007199254750001 = Num 9007199254750000"
  unfolding roundDouble_def Let_def
  apply (simp add: exponentOf_def bitLength.simps)
  apply (simp add: pow2_def)
  apply (simp add: roundHalfEven_def Let_def)
  done

lemma roundDouble_tie_up: "roundDouble 9007199254750003 = Num 9007199254750004"
  unfolding roundDouble_def Let_def
  apply (simp add: exponentOf_def bitLength.simps)
  apply (simp add: pow2_def)
  apply (simp add: roundHalfEven_def Let_def)
  done

section \<open>Reading an amount\<close>

lemma mathInt_Nil: "mathInt [] = 0"
  by (simp add: mathInt_def)

lemma mathInt_snoc: "mathInt (xs @ [c]) = 10 * mathInt xs + digitValue c"
  by (simp add: mathInt_def)

text \<open>The digits accumulated from the left spell the number read from the right.\<close>

lemma mathInt_base10: "mathInt ds = base10 ds"
  by (induction ds rule: rev_induct) (simp_all add: mathInt_Nil mathInt_snoc base10_def)

lemma digit_not_space: "isDigit c \<Longrightarrow> \<not> isWhiteSpace c"
  by (auto simp: isDigit_def isWhiteSpace_def)

lemma digit_not_sign: "isDigit c \<Longrightarrow> c \<noteq> CHR ''+'' \<and> c \<noteq> CHR ''-''"
  by (auto simp: isDigit_def)

lemma sign_not_space: "\<not> isWhiteSpace CHR ''+''" "\<not> isWhiteSpace CHR ''-''"
  by (simp_all add: isWhiteSpace_def)

lemma takeWhile_run:
  assumes "list_all P ds" and "rest = [] \<or> \<not> P (hd rest)"
  shows "takeWhile P (ds @ rest) = ds"
proof (cases rest)
  case Nil
  with assms(1) show ?thesis by (simp add: list_all_iff)
next
  case (Cons c cs)
  with assms show ?thesis by (simp add: list_all_iff takeWhile_tail)
qed

lemma dropWhile_spaces:
  assumes "list_all isWhiteSpace ws" and "\<not> isWhiteSpace c"
  shows "dropWhile isWhiteSpace (ws @ c # cs) = c # cs"
  using assms by (simp add: list_all_iff)

text \<open>What \<^verbatim>\<open>parseInt\<close> returns on a text that parses as \<open>n\<close>: the double nearest to \<open>n\<close>.\<close>

lemma parseInt10_parsesAs:
  assumes "parsesAs s n"
  shows "parseInt10 s = roundDouble (of_int n)"
proof -
  from assms obtain ws sgn ds rest where
    s: "s = ws @ sgn @ ds @ rest" and ws: "list_all isWhiteSpace ws"
    and sgn: "sgn \<in> {[], ''+'', ''-''}" and ds: "ds \<noteq> []" "list_all isDigit ds"
    and rest: "rest = [] \<or> \<not> isDigit (hd rest)"
    and n: "n = (if sgn = ''-'' then - int (base10 ds) else int (base10 ds))"
    unfolding parsesAs_def by blast
  from ds obtain d ds' where d: "ds = d # ds'" "isDigit d"
    by (cases ds) simp_all
  have run: "takeWhile isDigit (ds @ rest) = ds"
    using ds(2) rest by (rule takeWhile_run)
  from sgn consider (none) "sgn = []" | (plus) "sgn = ''+''" | (minus) "sgn = ''-''"
    by auto
  then show ?thesis
  proof cases
    case none
    have drop: "dropWhile isWhiteSpace s = d # ds' @ rest"
      unfolding s none d(1) using dropWhile_spaces [OF ws digit_not_space [OF d(2)]] by simp
    have run': "takeWhile isDigit (d # ds' @ rest) = d # ds'"
      using run by (simp add: d(1))
    have "parseInt10 s = roundDouble (of_int (int (mathInt (d # ds'))))"
      unfolding parseInt10_def Let_def drop
      using digit_not_sign [OF d(2)] by (simp add: run' del: takeWhile.simps)
    then show ?thesis
      by (simp add: mathInt_base10 n none d(1))
  next
    case plus
    have "dropWhile isWhiteSpace s = CHR ''+'' # ds @ rest"
      unfolding s plus using dropWhile_spaces [OF ws sign_not_space(1)] by simp
    then have "parseInt10 s = (if takeWhile isDigit (ds @ rest) = [] then NaN
        else roundDouble (of_int (int (mathInt (takeWhile isDigit (ds @ rest))))))"
      by (simp add: parseInt10_def)
    then show ?thesis
      using ds(1) by (simp add: run mathInt_base10 n plus)
  next
    case minus
    have "dropWhile isWhiteSpace s = CHR ''-'' # ds @ rest"
      unfolding s minus using dropWhile_spaces [OF ws sign_not_space(2)] by simp
    then have "parseInt10 s = (if takeWhile isDigit (ds @ rest) = [] then NaN
        else roundDouble (of_int (- int (mathInt (takeWhile isDigit (ds @ rest))))))"
      by (simp add: parseInt10_def)
    then show ?thesis
      using ds(1) by (simp add: run mathInt_base10 n minus)
  qed
qed

lemma roundDouble_not_NaN: "roundDouble q \<noteq> NaN"
  by (simp add: roundDouble_def Let_def)

text \<open>And it returns a number only on a text that parses.\<close>

lemma parseInt10_number:
  assumes "parseInt10 s \<noteq> NaN"
  shows "\<exists>n. parsesAs s n"
proof -
  define ws where "ws = takeWhile isWhiteSpace s"
  define S where "S = dropWhile isWhiteSpace s"
  define sgn where "sgn = (case S of [] \<Rightarrow> [] | c # cs \<Rightarrow>
      if c = CHR ''+'' \<or> c = CHR ''-'' then [c] else [])"
  define S' where "S' = (case S of [] \<Rightarrow> S | c # cs \<Rightarrow>
      if c = CHR ''+'' \<or> c = CHR ''-'' then cs else S)"
  define ds where "ds = takeWhile isDigit S'"
  define rest where "rest = dropWhile isDigit S'"
  have "s = ws @ S"
    by (simp add: ws_def S_def)
  moreover have "S = sgn @ S'"
    by (cases S) (simp_all add: sgn_def S'_def)
  moreover have "S' = ds @ rest"
    by (simp add: ds_def rest_def)
  ultimately have s: "s = ws @ sgn @ ds @ rest"
    by simp
  have ws: "list_all isWhiteSpace ws"
    by (simp add: ws_def list_all_iff) (meson set_takeWhileD)
  have sgn: "sgn \<in> {[], ''+'', ''-''}"
    by (cases S) (auto simp: sgn_def)
  have "parseInt10 s = (if ds = [] then NaN else
      roundDouble (of_int ((case S of [] \<Rightarrow> 1 | c # cs \<Rightarrow> if c = CHR ''-'' then - 1 else 1)
        * int (mathInt ds))))"
    unfolding parseInt10_def Let_def ds_def S'_def S_def by (rule refl)
  with assms have ds: "ds \<noteq> []"
    by auto
  have digits: "list_all isDigit ds"
    by (simp add: ds_def list_all_iff) (meson set_takeWhileD)
  have rest: "rest = [] \<or> \<not> isDigit (hd rest)"
    unfolding rest_def by (metis hd_dropWhile)
  show ?thesis
    unfolding parsesAs_def using s ws sgn ds digits rest by blast
qed

lemma amountText_claimed: "amountText a = claimedAmount a"
  by (simp add: amountText_def claimedAmount_def given_def
      split: option.splits list.splits)

section \<open>Properties of the budget policy\<close>

lemma positive_truthy: "positive maxPayment \<Longrightarrow> truthy maxPayment"
  by (cases maxPayment) simp_all

lemma paymentPolicy_truthy:
  "truthy maxPayment \<Longrightarrow>
   paymentPolicy maxPayment version accepts =
     filter (\<lambda>a. js_le (amountCents a) maxPayment) accepts"
  by (simp add: paymentPolicy_def policies_def maxPaymentPolicy_def)

lemma paymentPolicy_falsy:
  "\<not> truthy maxPayment \<Longrightarrow> paymentPolicy maxPayment version accepts = accepts"
  by (simp add: paymentPolicy_def policies_def)

text \<open>The test that the code applies to an offer is the one the claims describe.\<close>

lemma js_le_amountCents:
  "js_le (amountCents a) maxPayment \<longleftrightarrow> withinBudget maxPayment a"
proof
  assume kept: "js_le (amountCents a) maxPayment"
  then have "parseInt10 (claimedAmount a) \<noteq> NaN"
    by (auto simp: amountCents_def amountText_claimed)
  then obtain n where n: "parsesAs (claimedAmount a) n"
    using parseInt10_number by blast
  with kept show "withinBudget maxPayment a"
    unfolding withinBudget_def
    by (auto simp: amountCents_def amountText_claimed parseInt10_parsesAs)
next
  assume "withinBudget maxPayment a"
  then show "js_le (amountCents a) maxPayment"
    unfolding withinBudget_def
    by (auto simp: amountCents_def amountText_claimed parseInt10_parsesAs)
qed

text \<open>
  Claim C1. For a positive budget the payment policy returns exactly the offers that are
  within the budget: those whose amount (\<^verbatim>\<open>maxAmountRequired\<close>, else \<^verbatim>\<open>amount\<close>, else
  \<^verbatim>\<open>'0'\<close>) parses as a base-10 integer which, divided by \<open>10^4\<close> as numbers of the
  language are, is at most the budget. The result is a subsequence of the input, so
  nothing is reordered, changed or added. For an amount below \<open>2^53\<close> smallest units and
  a budget of whole cents the division and the comparison are exact.
\<close>

theorem payment_policy_filters_by_budget:
  assumes "positive maxPayment"
  shows "paymentPolicy maxPayment version accepts = filter (withinBudget maxPayment) accepts
       \<and> subseq (paymentPolicy maxPayment version accepts) accepts
       \<and> (parsesAs (claimedAmount a) n \<and> \<bar>n\<bar> < 2 ^ 53 \<and> maxPayment = Num (of_int k) \<longrightarrow>
            (withinBudget maxPayment a \<longleftrightarrow> of_int n / 10 ^ 4 \<le> (of_int k :: rat)))"
proof (intro conjI impI)
  have "paymentPolicy maxPayment version accepts =
          filter (\<lambda>a. js_le (amountCents a) maxPayment) accepts"
    by (rule paymentPolicy_truthy [OF positive_truthy [OF assms]])
  then show eq: "paymentPolicy maxPayment version accepts = filter (withinBudget maxPayment) accepts"
    by (simp only: js_le_amountCents)
  show "subseq (paymentPolicy maxPayment version accepts) accepts"
    unfolding eq by (rule subseq_filter_left)
next
  assume range: "parsesAs (claimedAmount a) n \<and> \<bar>n\<bar> < 2 ^ 53 \<and> maxPayment = Num (of_int k)"
  then have parsed: "parseInt10 (claimedAmount a) = roundDouble (of_int n)"
    by (simp add: parseInt10_parsesAs)
  have "withinBudget maxPayment a \<longleftrightarrow>
      js_le (js_div (roundDouble (of_int n)) 10000) (Num (of_int k))"
  proof
    assume "withinBudget maxPayment a"
    then obtain n' where "parsesAs (claimedAmount a) n'"
      and "js_le (js_div (roundDouble (of_int n')) 10000) maxPayment"
      unfolding withinBudget_def by auto
    then show "js_le (js_div (roundDouble (of_int n)) 10000) (Num (of_int k))"
      using parsed range by (simp add: parseInt10_parsesAs)
  next
    assume "js_le (js_div (roundDouble (of_int n)) 10000) (Num (of_int k))"
    then show "withinBudget maxPayment a"
      unfolding withinBudget_def using range by auto
  qed
  also have "\<dots> \<longleftrightarrow> n \<le> 10000 * k"
    using range by (simp add: whole_cents_exact)
  also have "\<dots> \<longleftrightarrow> (of_int n :: rat) \<le> of_int (10000 * k)"
    by (simp only: of_int_le_iff)
  also have "\<dots> \<longleftrightarrow> of_int n / 10 ^ 4 \<le> (of_int k :: rat)"
    by (simp add: field_simps)
  finally show "withinBudget maxPayment a \<longleftrightarrow> of_int n / 10 ^ 4 \<le> (of_int k :: rat)" .
qed

lemmas parseInt10_eval =
  parseInt10_def isWhiteSpace_def isDigit_def mathInt_def digitValue_def
  roundDouble_exact roundDouble_zero roundDouble_le roundDouble_not_le

lemma parsesAs_digits:
  assumes "ds \<noteq> []" and "list_all isDigit ds"
  shows "parsesAs ds (int (base10 ds))"
  unfolding parsesAs_def
  using assms by (intro exI [of _ "[]"] exI [of _ ds]) simp

text \<open>
  A budget of 50 cents. Kept, in their order: 40 cents; 30 cents named in \<^verbatim>\<open>amount\<close>
  alone; 10 cents in \<^verbatim>\<open>amount\<close> beside an empty \<^verbatim>\<open>maxAmountRequired\<close>; 7 units
  behind a no-break space; a negative amount; 12 units followed by letters. Dropped: 60
  cents; a price that is not a number; 60 cents named in \<^verbatim>\<open>amount\<close> alone; 70 cents in
  \<^verbatim>\<open>maxAmountRequired\<close> beside 10 cents in \<^verbatim>\<open>amount\<close>.
\<close>

theorem payment_policy_filters_by_budget_witness:
  "positive (Num 50)
   \<and> paymentPolicy (Num 50) 2
       [offer ''600000'', offer ''400000'', offer ''n/a'',
        offerWith None (Some ''600000''), offerWith None (Some ''300000''),
        offerWith (Some []) (Some ''100000''), offerWith (Some ''700000'') (Some ''100000''),
        offer [CHR 0xA0, CHR ''7''], offer ''-5'', offer ''12abc'']
     = [offer ''400000'', offerWith None (Some ''300000''),
        offerWith (Some []) (Some ''100000''),
        offer [CHR 0xA0, CHR ''7''], offer ''-5'', offer ''12abc'']
   \<and> parsesAs (claimedAmount (offer ''400000'')) 400000 \<and> \<bar>400000 :: int\<bar> < 2 ^ 53
   \<and> withinBudget (Num 50) (offer ''400000'') \<and> (400000 :: rat) / 10 ^ 4 \<le> 50"
proof -
  have parsed: "parsesAs (claimedAmount (offer ''400000'')) 400000"
    using parsesAs_digits [of "''400000''"]
    by (simp add: claimedAmount_def given_def offer_def isDigit_def base10_def digitValue_def)
  have kept: "paymentPolicy (Num 50) 2
       [offer ''600000'', offer ''400000'', offer ''n/a'',
        offerWith None (Some ''600000''), offerWith None (Some ''300000''),
        offerWith (Some []) (Some ''100000''), offerWith (Some ''700000'') (Some ''100000''),
        offer [CHR 0xA0, CHR ''7''], offer ''-5'', offer ''12abc'']
     = [offer ''400000'', offerWith None (Some ''300000''),
        offerWith (Some []) (Some ''100000''),
        offer [CHR 0xA0, CHR ''7''], offer ''-5'', offer ''12abc'']"
    by (simp add: paymentPolicy_truthy amountCents_def amountText_def offer_def offerWith_def
        parseInt10_eval)
  show ?thesis
    using payment_policy_filters_by_budget
      [of "Num 50" 2
          "[offer ''600000'', offer ''400000'', offer ''n/a'',
            offerWith None (Some ''600000''), offerWith None (Some ''300000''),
            offerWith (Some []) (Some ''100000''), offerWith (Some ''700000'') (Some ''100000''),
            offer [CHR 0xA0, CHR ''7''], offer ''-5'', offer ''12abc'']"
          "offer ''400000''" 400000 50]
      parsed kept
    by simp
qed

text \<open>
  Where the doubles show. A budget that is the double nearest to 0.3 cents keeps an offer
  of 3000 units, whose quotient is that same double; and an offer of 9007199254750001
  units, which is no double, is read as 9007199254750000 and kept under a budget of
  900719925475 cents.
\<close>

lemma policy_at_three_tenths:
  "paymentPolicy (Num (5404319552844595 / 2 ^ 54)) 2 [offer ''3000''] = [offer ''3000'']"
proof -
  have "parseInt10 ''3000'' = Num 3000"
    by (simp add: parseInt10_eval)
  then have "amountCents (offer ''3000'') = Num (5404319552844595 / 2 ^ 54)"
    by (simp add: amountCents_def amountText_def offer_def roundDouble_three_tenths)
  then show ?thesis
    by (simp add: paymentPolicy_truthy)
qed

lemma policy_beyond_2_53:
  "paymentPolicy (Num 900719925475) 2 [offer ''9007199254750001'']
     = [offer ''9007199254750001'']"
proof -
  have "parseInt10 ''9007199254750001'' = Num 9007199254750000"
    by (simp add: parseInt10_def isWhiteSpace_def isDigit_def mathInt_def digitValue_def
        roundDouble_tie_down)
  then have "amountCents (offer ''9007199254750001'') = Num 900719925475"
    by (simp add: amountCents_def amountText_def offer_def roundDouble_exact)
  then show ?thesis
    by (simp add: paymentPolicy_truthy)
qed

text \<open>An amount of \<open>2^1024\<close> units or more reads as infinity and is over every budget.\<close>

lemma beyond_doubles_dropped:
  assumes "parsesAs (claimedAmount a) n" and "2 ^ 1024 \<le> n"
  shows "\<not> withinBudget (Num m) a"
proof -
  have "(of_int (2 ^ 1024) :: rat) \<le> of_int n"
    using assms(2) by (simp only: of_int_le_iff)
  then have "2 ^ 1024 \<le> \<bar>of_int n :: rat\<bar>" and "\<not> (of_int n :: rat) < 0"
    by simp_all
  then have "roundDouble (of_int n) = PosInf"
    by (simp add: roundDouble_overflow)
  then have "amountCents a = PosInf"
    using assms(1) by (simp add: amountCents_def amountText_claimed parseInt10_parsesAs)
  then have "\<not> js_le (amountCents a) (Num m)"
    by simp
  then show ?thesis
    using js_le_amountCents by blast
qed

text \<open>
  The policies a created wallet hands to the protocol client are those of its options;
  with \<^verbatim>\<open>maxPayment\<close> omitted they are those of a budget of 100 cents.
\<close>

lemma createWallet_policy:
  assumes "createWallet privateKeyToAccount privateKey opts = Inr w"
  shows "applyPolicies (w_policies w) = walletPolicy opts"
  using assms
  by (auto simp: createWallet_def walletPolicy_def paymentPolicy_def split: sum.splits)

lemma omitted_maxPayment_is_100:
  "opt_maxPayment opts = None \<Longrightarrow> walletPolicy opts = paymentPolicy (Num 100)"
  by (simp add: walletPolicy_def maxPaymentOf_def)

text \<open>
  Claim C2, as stated, fails where \<^verbatim>\<open>maxPayment\<close> is omitted: the destructuring default
  makes the budget 100 cents, and an offer of 200 cents is filtered out.
\<close>

theorem omitted_maxPayment_still_filters:
  "walletPolicy noOptions 2 [offer ''2000000''] \<noteq> [offer ''2000000'']"
  by (simp add: walletPolicy_def noOptions_def maxPaymentOf_def paymentPolicy_def policies_def
      maxPaymentPolicy_def amountCents_def offer_def amountText_def parseInt10_eval)

text \<open>
  Claim C2, amended. If \<^verbatim>\<open>maxPayment\<close> is given and falsy (zero, or not a number), no
  policy is registered: every offer is accepted and the input is yielded unchanged.
\<close>

theorem falsy_maxPayment_no_filtering:
  assumes "opt_maxPayment opts = Some m" and "\<not> truthy m"
  shows "policies (maxPaymentOf opts) = (None :: 'z policy list option)
       \<and> walletPolicy opts version (accepts :: 'z PaymentRequirement_scheme list) = accepts"
  using assms by (simp add: walletPolicy_def maxPaymentOf_def paymentPolicy_falsy policies_def)

theorem falsy_maxPayment_no_filtering_witness:
  "opt_maxPayment (noOptions\<lparr>opt_maxPayment := Some (Num 0)\<rparr>) = Some (Num 0)
   \<and> \<not> truthy (Num 0)
   \<and> walletPolicy (noOptions\<lparr>opt_maxPayment := Some (Num 0)\<rparr>) 2
         [offer ''2000000'', offer ''n/a''] = [offer ''2000000'', offer ''n/a'']"
  using falsy_maxPayment_no_filtering
    [of "noOptions\<lparr>opt_maxPayment := Some (Num 0)\<rparr>" "Num 0" 2
        "[offer ''2000000'', offer ''n/a'']"]
  by (simp add: noOptions_def)

text \<open>
  Claim C10. An offer with neither \<^verbatim>\<open>maxAmountRequired\<close> nor \<^verbatim>\<open>amount\<close> has the amount
  text \<^verbatim>\<open>'0'\<close>, which is 0 cents; under every non-negative budget the policy keeps it,
  at its place among the other offers.
\<close>

theorem absent_amount_accepted:
  assumes "0 \<le> m" and "maxAmountRequired a = None" and "amount a = None"
  shows "amountText a = ''0'' \<and> amountCents a = Num 0 \<and>
     paymentPolicy (Num m) version (xs @ a # ys) =
       paymentPolicy (Num m) version xs @ a # paymentPolicy (Num m) version ys"
proof -
  have zero_text: "amountText a = ''0''"
    using assms(2,3) by (simp add: amountText_def)
  have "parseInt10 ''0'' = Num 0"
    by (simp add: parseInt10_eval)
  with zero_text have cents: "amountCents a = Num 0"
    by (simp add: amountCents_def roundDouble_zero)
  show ?thesis
  proof (cases "m = 0")
    case True
    then show ?thesis
      using zero_text cents by (simp add: paymentPolicy_falsy)
  next
    case False
    with assms(1) have "truthy (Num m)" and "js_le (amountCents a) (Num m)"
      using cents by simp_all
    then show ?thesis
      using zero_text cents by (simp add: paymentPolicy_truthy)
  qed
qed

theorem absent_amount_accepted_witness:
  "(0::rat) \<le> 1 \<and> maxAmountRequired unpricedOffer = None \<and> amount unpricedOffer = None
   \<and> paymentPolicy (Num 1) 2 ([offer ''600000''] @ unpricedOffer # [offer ''20000''])
       = [unpricedOffer]"
  using absent_amount_accepted [of 1 unpricedOffer 2 "[offer ''600000'']" "[offer ''20000'']"]
  by (simp add: unpricedOffer_def offer_def paymentPolicy_truthy amountCents_def amountText_def
      parseInt10_eval)

section \<open>Key normalisation\<close>

lemma hex_not_prefixed:
  assumes "list_all isHexDigit key"
  shows "\<not> prefix ''0x'' key"
proof
  assume "prefix ''0x'' key"
  then obtain rest where "key = ''0x'' @ rest"
    by (auto simp: prefix_def)
  with assms have "isHexDigit CHR ''x''"
    by simp
  then show False
    by (simp add: isHexDigit_def)
qed

text \<open>
  Claim C9. For a key of hex digits, the key and the key behind \<^verbatim>\<open>0x\<close> are normalised
  to the same string, the prefixed one; that string is what the account derivation
  receives, so both spellings create the same wallet, whose address is the one the
  collaborator derives from the prefixed key.
\<close>

theorem key_prefix_makes_no_difference:
  assumes "list_all isHexDigit key"
  shows "normalizedKey key = ''0x'' @ key
       \<and> normalizedKey (''0x'' @ key) = ''0x'' @ key
       \<and> (createWallet privateKeyToAccount (''0x'' @ key) opts :: error + 'z wallet)
           = createWallet privateKeyToAccount key opts
       \<and> (\<forall>acct. privateKeyToAccount (''0x'' @ key) = Inr acct \<longrightarrow>
            (\<exists>w. (createWallet privateKeyToAccount key opts :: error + 'z wallet) = Inr w
                 \<and> w_address w = address acct))"
proof -
  have bare: "normalizedKey key = ''0x'' @ key"
    using hex_not_prefixed [OF assms] by (simp add: normalizedKey_def)
  have prefixed: "normalizedKey (''0x'' @ key) = ''0x'' @ key"
    by (simp add: normalizedKey_def)
  show ?thesis
    unfolding createWallet_def bare prefixed by (simp split: sum.splits)
qed

theorem key_prefix_makes_no_difference_witness:
  "list_all isHexDigit TEST_KEY
   \<and> (createWallet sampleAccount (''0x'' @ TEST_KEY) noOptions :: error + unit wallet)
       = createWallet sampleAccount TEST_KEY noOptions
   \<and> (\<exists>w. (createWallet sampleAccount TEST_KEY noOptions :: error + unit wallet) = Inr w
         \<and> w_address w = ''0x89abcdef0123456789abcdef0123456789abcdef'')"
  using key_prefix_makes_no_difference [of TEST_KEY sampleAccount noOptions, where ?'z = unit]
  by (simp add: TEST_KEY_def isHexDigit_def sampleAccount_def)

section \<open>Results of \<^verbatim>\<open>get\<close> and \<^verbatim>\<open>post\<close>\<close>

lemma readResponse_text:
  assumes "resp_text resp = Inr body"
  shows "\<exists>r. readResponse JSON_parse resp = Inr r
           \<and> data r = (case JSON_parse body of Inl _ \<Rightarrow> Text body | Inr parsed \<Rightarrow> Parsed parsed)"
  using assms by (simp add: readResponse_def)

lemma sampleResponse_read:
  "readResponse sampleParse sampleResponse
     = Inr \<lparr>status = 200, data = Text ''pong'', paid = True\<rparr>"
  by (simp add: sampleResponse_def sampleParse_def readResponse_def headers_has_def lowerChar_def)

lemma paymentRequiredResponse_read:
  "readResponse sampleParse paymentRequiredResponse
     = Inr \<lparr>status = 402, data = Text ''{}'', paid = False\<rparr>"
  by (simp add: paymentRequiredResponse_def sampleParse_def readResponse_def headers_has_def
      lowerChar_def)

lemma sampleResponse_text: "resp_text sampleResponse = Inr ''pong''"
  by (simp add: sampleResponse_def)

lemma sampleParse_pong: "sampleParse ''pong'' = Inl (Raised ''SyntaxError'')"
  by (simp add: sampleParse_def)

text \<open>
  Claim C5. When the final response's body is read as text and \<^verbatim>\<open>JSON.parse\<close> raises on
  it, \<^verbatim>\<open>get\<close> and \<^verbatim>\<open>post\<close> do not raise: they return a result whose \<^verbatim>\<open>data\<close> is the raw
  text itself.
\<close>

theorem non_json_body_is_returned_as_text:
  assumes "resp_text resp = Inr body" and "JSON_parse body = Inl e"
  shows "(fetch (getRequest u hs) = Inr resp \<longrightarrow>
            (\<exists>r. get fetch JSON_parse u hs = Inr r \<and> data r = Text body))
       \<and> (JSON_stringify b = Inr bodyText \<and> fetch (postRequest u bodyText hs) = Inr resp \<longrightarrow>
            (\<exists>r. post fetch JSON_parse JSON_stringify u b hs = Inr r \<and> data r = Text body))"
  using readResponse_text [OF assms(1), of JSON_parse] assms(2)
  by (simp add: get_def post_def)

theorem non_json_body_is_returned_as_text_witness:
  "resp_text sampleResponse = Inr ''pong'' \<and> sampleParse ''pong'' = Inl (Raised ''SyntaxError'')
   \<and> get (respondWith sampleResponse) sampleParse ''https://api.example.com/data'' []
       = Inr \<lparr>status = 200, data = Text ''pong'', paid = True\<rparr>
   \<and> post (respondWith sampleResponse) sampleParse sampleStringify
         ''https://api.example.com/data'' ''ping'' []
       = Inr \<lparr>status = 200, data = Text ''pong'', paid = True\<rparr>"
  using non_json_body_is_returned_as_text
    [of sampleResponse "''pong''" sampleParse "Raised ''SyntaxError''"
        "respondWith sampleResponse" "''https://api.example.com/data''" "[]"
        sampleStringify "''ping''" "Some (CHR 0x22 # ''ping'' @ [CHR 0x22])"]
  by (simp add: sampleResponse_text sampleParse_pong respondWith_def get_def post_def
      sampleStringify_def sampleResponse_read)

lemma isPaymentConfirmation_samples:
  "isPaymentConfirmation ''PAYMENT-RESPONSE''" "\<not> isPaymentConfirmation ''content-type''"
  by (simp_all add: isPaymentConfirmation_def lowerChar_def)


lemma headers_has_iff:
  "headers_has hs name \<longleftrightarrow> (\<exists>k \<in> fst ` set hs. map lowerChar k = map lowerChar name)"
  unfolding headers_has_def by force

lemma lower_confirmation_names:
  "map lowerChar ''x-payment-response'' = ''x-payment-response''"
  "map lowerChar ''payment-response'' = ''payment-response''"
  by (simp_all add: lowerChar_def)

lemma readResponse_paid:
  assumes "readResponse JSON_parse resp = Inr r"
  shows "paid r \<longleftrightarrow> (\<exists>k \<in> fst ` set (resp_headers resp). isPaymentConfirmation k)"
proof -
  from assms have "paid r \<longleftrightarrow>
      headers_has (resp_headers resp) ''x-payment-response''
      \<or> headers_has (resp_headers resp) ''payment-response''"
    by (auto simp: readResponse_def split: sum.splits)
  also have "\<dots> \<longleftrightarrow> (\<exists>k \<in> fst ` set (resp_headers resp).
      map lowerChar k = ''x-payment-response'' \<or> map lowerChar k = ''payment-response'')"
    by (simp only: headers_has_iff lower_confirmation_names bex_disj_distrib)
  finally show ?thesis
    unfolding isPaymentConfirmation_def .
qed

text \<open>
  Claim C6. The \<^verbatim>\<open>paid\<close> flag of a result of \<^verbatim>\<open>get\<close> or \<^verbatim>\<open>post\<close> is true exactly when
  the final response has a payment-confirmation header, in any letter case; it says
  nothing else about what happened before, so it is false for a response without one.
\<close>

theorem paid_iff_confirmation_header:
  "(fetch (getRequest u hs) = Inr resp \<and> get fetch JSON_parse u hs = Inr r \<longrightarrow>
      (paid r \<longleftrightarrow> (\<exists>k \<in> fst ` set (resp_headers resp). isPaymentConfirmation k)))
   \<and> (JSON_stringify b = Inr bodyText \<and> fetch (postRequest u bodyText hs) = Inr resp
       \<and> post fetch JSON_parse JSON_stringify u b hs = Inr r' \<longrightarrow>
      (paid r' \<longleftrightarrow> (\<exists>k \<in> fst ` set (resp_headers resp). isPaymentConfirmation k)))"
proof (intro conjI impI)
  assume "fetch (getRequest u hs) = Inr resp \<and> get fetch JSON_parse u hs = Inr r"
  then have "readResponse JSON_parse resp = Inr r"
    by (clarsimp simp: get_def)
  then show "paid r \<longleftrightarrow> (\<exists>k \<in> fst ` set (resp_headers resp). isPaymentConfirmation k)"
    by (rule readResponse_paid)
next
  assume "JSON_stringify b = Inr bodyText \<and> fetch (postRequest u bodyText hs) = Inr resp
       \<and> post fetch JSON_parse JSON_stringify u b hs = Inr r'"
  then have "readResponse JSON_parse resp = Inr r'"
    by (clarsimp simp: post_def)
  then show "paid r' \<longleftrightarrow> (\<exists>k \<in> fst ` set (resp_headers resp). isPaymentConfirmation k)"
    by (rule readResponse_paid)
qed

theorem paid_iff_confirmation_header_witness:
  "get (respondWith sampleResponse) sampleParse ''https://api.example.com/data'' []
       = Inr \<lparr>status = 200, data = Text ''pong'', paid = True\<rparr>
   \<and> sampleStringify ''ping'' = Inr (Some (CHR 0x22 # ''ping'' @ [CHR 0x22]))
   \<and> post (respondWith sampleResponse) sampleParse sampleStringify
         ''https://api.example.com/data'' ''ping'' []
       = Inr \<lparr>status = 200, data = Text ''pong'', paid = True\<rparr>
   \<and> (\<exists>k \<in> fst ` set (resp_headers sampleResponse). isPaymentConfirmation k)"
  using paid_iff_confirmation_header
    [of "respondWith sampleResponse" "''https://api.example.com/data''" "[]" sampleResponse
        sampleParse "\<lparr>status = 200, data = Text ''pong'', paid = True\<rparr>"
        sampleStringify "''ping''" "Some (CHR 0x22 # ''ping'' @ [CHR 0x22])"
        "\<lparr>status = 200, data = Text ''pong'', paid = True\<rparr>"]
  by (simp add: respondWith_def get_def post_def sampleStringify_def sampleResponse_read)

text \<open>A 402 response without such a header reads as unpaid.\<close>

lemma unpaid_response_reads_unpaid:
  "get (respondWith paymentRequiredResponse) sampleParse ''https://api.example.com/data'' []
       = Inr \<lparr>status = 402, data = Text ''{}'', paid = False\<rparr>"
  by (simp add: respondWith_def get_def paymentRequiredResponse_read)

section \<open>Decimal strings\<close>

lemma digitChar_digit:
  assumes "d < 10"
  shows "isDigit (digitChar d)" and "digitValue (digitChar d) = d"
proof -
  from assms have "d \<in> {0, 1, 2, 3, 4, 5, 6, 7, 8, 9}"
    by auto
  then show "isDigit (digitChar d)" and "digitValue (digitChar d) = d"
    by (auto simp: digitChar_def isDigit_def digitValue_def)
qed

lemma mathInt_append: "mathInt (xs @ ys) = mathInt xs * 10 ^ length ys + mathInt ys"
proof (induction ys rule: rev_induct)
  case Nil
  show ?case by (simp add: mathInt_Nil)
next
  case (snoc c ys)
  have "mathInt (xs @ ys @ [c]) = 10 * mathInt (xs @ ys) + digitValue c"
    using mathInt_snoc [of "xs @ ys" c] by simp
  also have "\<dots> = mathInt xs * 10 ^ length (ys @ [c]) + mathInt (ys @ [c])"
    by (simp add: snoc.IH mathInt_snoc algebra_simps)
  finally show ?case .
qed

lemma mathInt_zeros: "mathInt (replicate k (CHR ''0'')) = 0"
  by (induction k) (simp_all add: mathInt_def digitValue_def)

lemma toString_digits: "list_all isDigit (toString n)"
  by (induction n rule: toString.induct) (subst toString.simps, simp add: digitChar_digit)

lemma toString_nonempty: "toString n \<noteq> []"
  by (subst toString.simps) simp

lemma mathInt_toString: "mathInt (toString n) = n"
proof (induction n rule: toString.induct)
  case (1 n)
  show ?case
  proof (cases "n < 10")
    case True
    then show ?thesis
      using mathInt_snoc [of "[]" "digitChar n"]
      by (subst toString.simps) (simp add: mathInt_Nil digitChar_digit)
  next
    case False
    then show ?thesis
      using "1.IH"
      by (subst toString.simps) (simp add: mathInt_snoc digitChar_digit)
  qed
qed

lemma stripTrailingZeros_decomp:
  "\<exists>k. s = stripTrailingZeros s @ replicate k (CHR ''0'')"
proof (induction s rule: rev_induct)
  case Nil
  show ?case by (simp add: stripTrailingZeros_def)
next
  case (snoc c s)
  show ?case
  proof (cases "c = CHR ''0''")
    case True
    from snoc.IH obtain k where k: "s = stripTrailingZeros s @ replicate k (CHR ''0'')" ..
    have "stripTrailingZeros (s @ [c]) = stripTrailingZeros s"
      using True by (simp add: stripTrailingZeros_def)
    moreover have "s @ [c] = stripTrailingZeros s @ replicate (Suc k) (CHR ''0'')"
      using k True by (metis append_assoc replicate_Suc replicate_append_same)
    ultimately show ?thesis by metis
  next
    case False
    then have "stripTrailingZeros (s @ [c]) = s @ [c]"
      by (simp add: stripTrailingZeros_def)
    then show ?thesis by (metis append_Nil2 replicate_0)
  qed
qed

lemma stripTrailingZeros_digits:
  "list_all isDigit s \<Longrightarrow> list_all isDigit (stripTrailingZeros s)"
  by (metis stripTrailingZeros_decomp list_all_append)

lemma stripTrailingZeros_value:
  "(of_nat (mathInt (stripTrailingZeros s)) :: rat) / 10 ^ length (stripTrailingZeros s)
     = of_nat (mathInt s) / 10 ^ length s"
proof -
  obtain k where k: "s = stripTrailingZeros s @ replicate k (CHR ''0'')"
    using stripTrailingZeros_decomp by blast
  let ?t = "stripTrailingZeros s"
  have "mathInt s = mathInt ?t * 10 ^ k"
    by (subst k) (simp add: mathInt_append mathInt_zeros)
  moreover have "length s = length ?t + k"
    by (subst k) simp
  ultimately show ?thesis
    by (simp add: power_add)
qed

lemma isDigit_dot: "\<not> isDigit CHR ''.''"
  by (simp add: isDigit_def)

lemma decimalValue_whole:
  assumes "whole \<noteq> []" and "list_all isDigit whole"
  shows "decimalValue whole = Some (of_nat (mathInt whole))"
proof -
  from assms(2) have tw: "takeWhile isDigit whole = whole"
    and dw: "dropWhile isDigit whole = []"
    by (simp_all add: list_all_iff)
  show ?thesis
    unfolding decimalValue_def tw dw using assms(1) by simp
qed

lemma decimalValue_point:
  assumes "whole \<noteq> []" and "list_all isDigit whole"
    and "digits \<noteq> []" and "list_all isDigit digits"
  shows "decimalValue (whole @ CHR ''.'' # digits)
           = Some (of_nat (mathInt whole) + of_nat (mathInt digits) / 10 ^ length digits)"
proof -
  from assms(2) have tw: "takeWhile isDigit (whole @ CHR ''.'' # digits) = whole"
    and dw: "dropWhile isDigit (whole @ CHR ''.'' # digits) = CHR ''.'' # digits"
    by (simp_all add: list_all_iff isDigit_dot)
  show ?thesis
    unfolding decimalValue_def tw dw using assms(1,3,4) by simp
qed

text \<open>The string of a balance denotes the balance.\<close>

lemma toString_value: "decimalValue (toString n) = Some (of_nat n)"
  by (simp add: decimalValue_whole toString_nonempty toString_digits mathInt_toString)

text \<open>The formatted string denotes the balance scaled by \<open>10\<close> to the minus \<open>decimals\<close>.\<close>

lemma formatUnits_scaled:
  "decimalValue (formatUnits v decimals) = Some (of_nat v / 10 ^ decimals)"
proof -
  define display
    where "display = replicate (decimals - length (toString v)) (CHR ''0'') @ toString v"
  define whole where "whole = take (length display - decimals) display"
  define part where "part = drop (length display - decimals) display"
  define wholeText where "wholeText = (if whole = [] then ''0'' else whole)"
  have fmt: "formatUnits v decimals =
      wholeText @ (if stripTrailingZeros part = [] then [] else CHR ''.'' # stripTrailingZeros part)"
    unfolding formatUnits_def Let_def display_def whole_def part_def wholeText_def
    by (rule refl)
  have "list_all isDigit (replicate (decimals - length (toString v)) (CHR ''0''))"
    by (simp add: list_all_iff isDigit_def)
  then have display_digits: "list_all isDigit display"
    by (simp add: display_def toString_digits)
  have display_value: "mathInt display = v"
    by (simp add: display_def mathInt_append mathInt_zeros mathInt_toString)
  have "decimals \<le> length display"
    by (simp add: display_def)
  then have part_len: "length part = decimals"
    by (simp add: part_def)
  have split: "display = whole @ part"
    by (simp add: whole_def part_def)
  have whole_digits: "list_all isDigit whole" and part_digits: "list_all isDigit part"
    using display_digits by (simp_all add: split)
  have value_split: "v = mathInt whole * 10 ^ decimals + mathInt part"
    using display_value by (simp add: split mathInt_append part_len)
  have wholeText_ok: "wholeText \<noteq> []" "list_all isDigit wholeText"
    "mathInt wholeText = mathInt whole"
    using whole_digits
    by (simp_all add: wholeText_def mathInt_Nil mathInt_def digitValue_def isDigit_def)
  have scaled: "(of_nat v :: rat) / 10 ^ decimals
      = of_nat (mathInt whole) + of_nat (mathInt part) / 10 ^ decimals"
    by (subst value_split) (simp add: field_simps)
  have stripped:
    "(of_nat (mathInt (stripTrailingZeros part)) :: rat) / 10 ^ length (stripTrailingZeros part)
      = of_nat (mathInt part) / 10 ^ decimals"
    using stripTrailingZeros_value [of part] by (simp add: part_len)
  show ?thesis
  proof (cases "stripTrailingZeros part = []")
    case True
    with stripped have "(of_nat (mathInt part) :: rat) / 10 ^ decimals = 0"
      by (simp add: mathInt_Nil)
    with True show ?thesis
      by (simp add: fmt decimalValue_whole wholeText_ok scaled)
  next
    case False
    then show ?thesis
      using decimalValue_point
        [OF wholeText_ok(1,2) False stripTrailingZeros_digits [OF part_digits]]
      by (simp add: fmt wholeText_ok scaled stripped)
  qed
qed

section \<open>Balance queries\<close>

lemma USDC_ADDRESSES_nonempty:
  "map_of USDC_ADDRESSES n = Some a \<Longrightarrow> a \<noteq> []"
  by (auto simp: USDC_ADDRESSES_def split: if_splits)

text \<open>
  Where the network identifier is neither a key of the mapping nor the name of a member
  of \<^verbatim>\<open>Object.prototype\<close>, \<^verbatim>\<open>getBalance\<close> fails with the wallet's own error and the
  chain client has not been called.
\<close>

lemma getBalance_unknown_network:
  assumes "map_of USDC_ADDRESSES (w_network w) = None"
    and "w_network w \<notin> set objectPrototypeKeys"
  shows "getBalance w (logged readContract) ([], s) =
           (Inl (UnknownUsdcAddress (w_network w)), ([], s))"
  using assms by (simp add: getBalance_def getProperty_def Let_def)

text \<open>
  Claim C7 fails for a network identifier that names an inherited member, such as
  \<^verbatim>\<open>constructor\<close>: the identifier is absent from the mapping, yet the guard lets it
  through, and the first thing recorded by the chain client is the \<^verbatim>\<open>balanceOf\<close> read
  with the inherited member as the contract address.
\<close>

theorem getBalance_inherited_key_reaches_chain:
  "fst (snd (getBalance (w\<lparr>w_network := ''constructor''\<rparr>) (logged readContract) ([], s))) =
     \<lparr>rc_address = Inherited ''constructor'', functionName = ''balanceOf'',
      args = Some [w_address w]\<rparr>
     # tl (fst (snd (getBalance (w\<lparr>w_network := ''constructor''\<rparr>)
                      (logged readContract) ([], s))))"
proof -
  let ?call = "\<lparr>rc_address = Inherited ''constructor'', functionName = ''balanceOf'',
      args = Some [w_address w]\<rparr>"
  let ?next = "\<lparr>rc_address = Inherited ''constructor'', functionName = ''decimals'',
      args = None\<rparr>"
  have looked_up: "getProperty USDC_ADDRESSES ''constructor'' = Inherited ''constructor''"
    by (simp add: getProperty_def USDC_ADDRESSES_def objectPrototypeKeys_def)
  obtain r s1 where first: "readContract s ?call = (r, s1)"
    by (cases "readContract s ?call")
  show ?thesis
  proof (cases r)
    case (Inl e)
    with first show ?thesis
      by (simp add: getBalance_def looked_up logged_def Let_def)
  next
    case (Inr bal)
    obtain r2 s2 where second: "readContract s1 ?next = (r2, s2)"
      by (cases "readContract s1 ?next")
    with first Inr show ?thesis
      by (cases r2) (simp_all add: getBalance_def looked_up logged_def Let_def)
  qed
qed

text \<open>
  Claim C8. On a mapped network, with both reads answered, \<^verbatim>\<open>getBalance\<close> issues exactly
  the \<^verbatim>\<open>balanceOf\<close> read for the wallet's address and then the \<^verbatim>\<open>decimals\<close> read, each
  against the world the previous call left, and returns the raw balance as its decimal
  string, the formatted string that denotes the balance divided by \<open>10\<close> to the
  \<open>decimals\<close>, the currency \<^verbatim>\<open>USDC\<close> and the wallet's network.
\<close>

theorem getBalance_on_mapped_network:
  assumes "map_of USDC_ADDRESSES (w_network w) = Some usdc"
    and "readContract s \<lparr>rc_address = Str usdc, functionName = ''balanceOf'',
                          args = Some [w_address w]\<rparr> = (Inr bal, s1)"
    and "readContract s1 \<lparr>rc_address = Str usdc, functionName = ''decimals'',
                           args = None\<rparr> = (Inr decimals, s2)"
  shows "getBalance w (logged readContract) ([], s) =
           (Inr \<lparr>balance = toString bal, formatted = formatUnits bal decimals,
                 currency = ''USDC'', network = w_network w\<rparr>,
            ([\<lparr>rc_address = Str usdc, functionName = ''balanceOf'', args = Some [w_address w]\<rparr>,
              \<lparr>rc_address = Str usdc, functionName = ''decimals'', args = None\<rparr>], s2))
       \<and> decimalValue (toString bal) = Some (of_nat bal)
       \<and> decimalValue (formatUnits bal decimals) = Some (of_nat bal / 10 ^ decimals)"
proof -
  have "getProperty USDC_ADDRESSES (w_network w) = Str usdc" and "usdc \<noteq> []"
    using assms(1) USDC_ADDRESSES_nonempty [OF assms(1)] by (simp_all add: getProperty_def)
  then have "getBalance w (logged readContract) ([], s) =
           (Inr \<lparr>balance = toString bal, formatted = formatUnits bal decimals,
                 currency = ''USDC'', network = w_network w\<rparr>,
            ([\<lparr>rc_address = Str usdc, functionName = ''balanceOf'', args = Some [w_address w]\<rparr>,
              \<lparr>rc_address = Str usdc, functionName = ''decimals'', args = None\<rparr>], s2))"
    using assms(2,3) by (simp add: getBalance_def logged_def Let_def)
  then show ?thesis
    by (simp add: toString_value formatUnits_scaled)
qed

theorem getBalance_on_mapped_network_witness:
  "map_of USDC_ADDRESSES (w_network sampleWallet)
     = Some ''0x833589fCD6eDb6E08f4c7C32D4f71b54bdA02913''
   \<and> getBalance sampleWallet (logged sampleChain) ([], 0) =
       (Inr \<lparr>balance = ''1234567'', formatted = ''1.234567'', currency = ''USDC'',
             network = ''eip155:8453''\<rparr>,
        ([\<lparr>rc_address = Str ''0x833589fCD6eDb6E08f4c7C32D4f71b54bdA02913'',
           functionName = ''balanceOf'',
           args = Some [''0x89abcdef0123456789abcdef0123456789abcdef'']\<rparr>,
          \<lparr>rc_address = Str ''0x833589fCD6eDb6E08f4c7C32D4f71b54bdA02913'',
           functionName = ''decimals'', args = None\<rparr>], 2))
   \<and> decimalValue ''1.234567'' = Some (1234567 / 10 ^ 6)"
proof -
  have net: "map_of USDC_ADDRESSES (w_network sampleWallet)
      = Some ''0x833589fCD6eDb6E08f4c7C32D4f71b54bdA02913''"
    by (simp add: USDC_ADDRESSES_def sampleWallet_def)
  have first: "sampleChain 0 \<lparr>rc_address = Str ''0x833589fCD6eDb6E08f4c7C32D4f71b54bdA02913'',
       functionName = ''balanceOf'', args = Some [w_address sampleWallet]\<rparr> = (Inr 1234567, 1)"
    by (simp add: sampleChain_def)
  have second: "sampleChain 1 \<lparr>rc_address = Str ''0x833589fCD6eDb6E08f4c7C32D4f71b54bdA02913'',
       functionName = ''decimals'', args = None\<rparr> = (Inr 6, 2)"
    by (simp add: sampleChain_def)
  have str: "toString 1234567 = ''1234567''"
    by (simp add: toString.simps digitChar_def)
  have fmt: "formatUnits 1234567 6 = ''1.234567''"
    by (simp add: formatUnits_def toString.simps digitChar_def stripTrailingZeros_def)
  show ?thesis
    using getBalance_on_mapped_network [OF net first second] net
    by (simp add: str fmt sampleWallet_def)
qed

section \<open>The payment-wrapped fetch\<close>

lemma step_requests:
  assumes "finished p = None" and "step c rq (p, tr, s) = (p', tr', s')"
  shows "length (filter isHttpRequest tr') + requestsLeft p'
           \<le> length (filter isHttpRequest tr) + requestsLeft p"
  using assms
  by (cases p) (auto split: prod.splits sum.splits if_splits simp: Let_def)

lemma orchestrate_requests:
  "length (filter isHttpRequest (fst (snd (orchestrate c rq (p, tr, s)))))
     \<le> length (filter isHttpRequest tr) + requestsLeft p"
proof (induction c rq "(p, tr, s)" arbitrary: p tr s rule: orchestrate.induct)
  case (1 c rq p tr s)
  show ?case
  proof (cases "finished p")
    case (Some outcome)
    then show ?thesis by simp
  next
    case None
    obtain p' tr' s' where next_cfg: "step c rq (p, tr, s) = (p', tr', s')"
      by (cases "step c rq (p, tr, s)")
    have "length (filter isHttpRequest (fst (snd (orchestrate c rq (p', tr', s')))))
        \<le> length (filter isHttpRequest tr') + requestsLeft p'"
      using "1.hyps" [OF None next_cfg] .
    also have "\<dots> \<le> length (filter isHttpRequest tr) + requestsLeft p"
      by (rule step_requests [OF None next_cfg])
    finally show ?thesis
      using None next_cfg by simp
  qed
qed

lemma sample_offer_accepted: "paymentPolicy (Num 50) 2 [offer ''400000''] = [offer ''400000'']"
  by (simp add: paymentPolicy_truthy amountCents_def amountText_def offer_def parseInt10_eval)

lemma sample_offer_rejected: "paymentPolicy (Num 50) 2 [offer ''600000''] = []"
  by (simp add: paymentPolicy_truthy amountCents_def amountText_def offer_def parseInt10_eval)

text \<open>
  Claim C3. A logical call through the wrapped fetch issues at most two HTTP requests,
  whatever the server, the parser, the policy and the scheme client do; and when the
  retried request is answered with 402 again, the call ends there: that response is
  returned after exactly the initial request, one signing and the one retry.
\<close>

theorem at_most_two_requests:
  "length (filter isHttpRequest (fst (snd (wrapFetchWithPayment c rq s)))) \<le> 2
   \<and> (transport c s rq = (Inr resp, s1) \<and> resp_status resp = 402
      \<and> parseRequirements c resp = Inr (version, offers)
      \<and> budgetPolicy c version offers \<noteq> []
      \<and> schemeClient c s1 (budgetPolicy c version offers) = (Inr header, s2)
      \<and> transport c s2 (withPayment rq header) = (Inr resp2, s3) \<and> resp_status resp2 = 402
      \<longrightarrow> wrapFetchWithPayment c rq s =
            (Inr resp2,
             [HttpRequest rq, SignRequest (budgetPolicy c version offers),
              HttpRequest (withPayment rq header)], s3))"
proof -
  have "length (filter isHttpRequest (fst (snd (wrapFetchWithPayment c rq s)))) \<le> 2"
    using orchestrate_requests [of c rq Initial "[]" s] by (simp add: wrapFetchWithPayment_def)
  then show ?thesis
    by (simp add: wrapFetchWithPayment_def Let_def)
qed

theorem at_most_two_requests_witness:
  "wrapFetchWithPayment (sampleCollaborators ''400000'') sampleRequest 0 =
     (Inr paymentRequiredResponse,
      [HttpRequest sampleRequest, SignRequest [offer ''400000''],
       HttpRequest (withPayment sampleRequest (''PAYMENT-SIGNATURE'', ''c2lnbmVk''))], 2)
   \<and> length (filter isHttpRequest
        (fst (snd (wrapFetchWithPayment (sampleCollaborators ''400000'') sampleRequest 0)))) \<le> 2"
  using at_most_two_requests
    [of "sampleCollaborators ''400000''" sampleRequest 0 paymentRequiredResponse 1
        2 "[offer ''400000'']" "(''PAYMENT-SIGNATURE'', ''c2lnbmVk'')" 1
        paymentRequiredResponse 2]
  by (simp add: sampleCollaborators_def insistentServer_def sample_offer_accepted
      paymentRequiredResponse_def)

text \<open>
  Claim C4. When the policy leaves no offer of a 402 response, the call fails with
  \<open>PolicyRejection\<close>; the initial request is all that was done, so no authorization was
  asked of the scheme client.
\<close>

theorem empty_policy_result_is_rejected_unsigned:
  assumes "transport c s rq = (Inr resp, s1)" and "resp_status resp = 402"
    and "parseRequirements c resp = Inr (version, offers)"
    and "budgetPolicy c version offers = []"
  shows "wrapFetchWithPayment c rq s = (Inl PolicyRejection, [HttpRequest rq], s1)"
  using assms by (simp add: wrapFetchWithPayment_def)

theorem empty_policy_result_is_rejected_unsigned_witness:
  "wrapFetchWithPayment (sampleCollaborators ''600000'') sampleRequest 0 =
     (Inl PolicyRejection, [HttpRequest sampleRequest], 1)"
  using empty_policy_result_is_rejected_unsigned
    [of "sampleCollaborators ''600000''" 0 sampleRequest paymentRequiredResponse 1
        2 "[offer ''600000'']"]
  by (simp add: sampleCollaborators_def insistentServer_def sample_offer_rejected
      paymentRequiredResponse_def)

end
